theory Spec2Isabelle
  imports Main
begin

section \<open>Availability store (slot\_manager.py)\<close>

text \<open>
  A recruiter slot is the dictionary built in \<^verbatim>\<open>_generate_default_availability\<close> and in
  \<^verbatim>\<open>_refresh_recruiter_slots_from_backend\<close>: the keys \<^verbatim>\<open>"start"\<close>, \<^verbatim>\<open>"end"\<close>,
  \<^verbatim>\<open>"available"\<close> and \<^verbatim>\<open>"duration"\<close>. Start and end are kept as the ISO strings the
  source stores. \<^verbatim>\<open>recruiter_availability\<close> is a Python list of such dictionaries, so
  order and duplicates matter: it is a \<open>slot list\<close>.
\<close>

record slot =
  slot_start :: string
  slot_end :: string
  available :: bool
  duration :: int

text \<open>
  What a Python call hands back. \<^verbatim>\<open>mark_slot_booked\<close> has no \<^verbatim>\<open>return\<close> statement, so
  every call evaluates to \<^verbatim>\<open>None\<close>.
\<close>

datatype retval = PyNone | PyBool bool

text \<open>
  The loop of \<^verbatim>\<open>mark_slot_booked\<close>: the first slot whose start and end strings equal the
  arguments gets \<^verbatim>\<open>available = False\<close>, then \<^verbatim>\<open>break\<close>. The flag of that slot is not
  read before it is written.
\<close>

fun mark_loop :: "string \<Rightarrow> string \<Rightarrow> slot list \<Rightarrow> slot list" where
  "mark_loop s e [] = []"
| "mark_loop s e (x # xs) =
     (if slot_start x = s \<and> slot_end x = e
      then x\<lparr>available := False\<rparr> # xs
      else x # mark_loop s e xs)"

text \<open>The method: the returned value and the store after the call.\<close>

definition mark_slot_booked :: "slot list \<Rightarrow> string \<Rightarrow> string \<Rightarrow> retval \<times> slot list" where
  "mark_slot_booked store s e = (PyNone, mark_loop s e store)"

text \<open>The position of the first slot with the key \<open>(s, e)\<close>; \<open>length store\<close> when there is none.\<close>

definition first_key_index :: "string \<Rightarrow> string \<Rightarrow> slot list \<Rightarrow> nat" where
  "first_key_index s e store =
     length (takeWhile (\<lambda>x. \<not> (slot_start x = s \<and> slot_end x = e)) store)"


text \<open>
  Python compares strings by code point, position by position; a proper prefix is smaller.
  \<^verbatim>\<open>get_available_slots\<close> compares the stored start strings with the range strings this
  way (\<^verbatim>\<open>start_date <= slot["start"] <= end_date\<close>).
\<close>

fun str_le :: "string \<Rightarrow> string \<Rightarrow> bool" where
  "str_le [] t = True"
| "str_le (a # as) [] = False"
| "str_le (a # as) (b # bs) = (if a = b then str_le as bs else (of_char a :: nat) < of_char b)"

definition falsy_str :: "string option \<Rightarrow> bool" where
  "falsy_str a = (a = None \<or> a = Some [])"

text \<open>
  \<^verbatim>\<open>get_available_slots(start_date, end_date)\<close>. An argument that is \<^verbatim>\<open>None\<close> or the empty
  string is falsy and is replaced by a default computed from the clock:
  \<^verbatim>\<open>datetime.now().isoformat() + "Z"\<close> and the same fourteen days later. The two clock
  strings are the parameters \<open>now_iso\<close> and \<open>later_iso\<close>.
\<close>

fun range_loop :: "string \<Rightarrow> string \<Rightarrow> slot list \<Rightarrow> slot list" where
  "range_loop sd ed [] = []"
| "range_loop sd ed (slot # others) =
     (if str_le sd (slot_start slot) \<and> str_le (slot_start slot) ed \<and> available slot
      then slot # range_loop sd ed others
      else range_loop sd ed others)"

definition get_available_slots ::
    "string \<Rightarrow> string \<Rightarrow> slot list \<Rightarrow> string option \<Rightarrow> string option \<Rightarrow> slot list" where
  "get_available_slots now_iso later_iso store start_date end_date =
     (let sd = (if falsy_str start_date then now_iso else the start_date);
          ed = (if falsy_str end_date then later_iso else the end_date)
      in range_loop sd ed store)"

section \<open>Refreshing the store (scheduler\_agent.py)\<close>

text \<open>
  One entry of the backend's \<^verbatim>\<open>"slots"\<close> list; \<^verbatim>\<open>s.get("startTime")\<close> is \<^verbatim>\<open>None\<close> when
  the key is missing.
\<close>

record backend_slot =
  startTime :: "string option"
  endTime :: "string option"

text \<open>
  What \<^verbatim>\<open>backend_client.fetch_recruiter_slots\<close> hands to the refresh: a dictionary, read
  through its \<^verbatim>\<open>"slots"\<close> list (the error dictionary of a failed request has no such key,
  which reads as the empty list), or an exception: one that the client does not catch,
  or one that a malformed reply raises in the mapping loop. Both are raised before the
  store is assigned.
\<close>

datatype backend_reply = Raises | Returns "backend_slot list"

text \<open>The loop that builds \<open>mapped\<close>: an entry without a start or an end is skipped.\<close>

fun map_backend_slots :: "int \<Rightarrow> backend_slot list \<Rightarrow> slot list" where
  "map_backend_slots duration_minutes [] = []"
| "map_backend_slots duration_minutes (s # others) =
     (if falsy_str (startTime s) \<or> falsy_str (endTime s)
      then map_backend_slots duration_minutes others
      else \<lparr>slot_start = the (startTime s), slot_end = the (endTime s),
             available = True, duration = duration_minutes\<rparr>
             # map_backend_slots duration_minutes others)"

text \<open>
  \<^verbatim>\<open>_refresh_recruiter_slots_from_backend\<close> on the store: the result is \<open>None\<close> when an
  exception was raised (the store is then untouched, the exception reaches the calling
  tool), and otherwise the returned list \<open>mapped\<close> with the store after the call.
\<close>

definition refresh_recruiter_slots_from_backend ::
    "backend_reply \<Rightarrow> int \<Rightarrow> slot list \<Rightarrow> (slot list \<times> slot list) option" where
  "refresh_recruiter_slots_from_backend reply duration_minutes store =
     (case reply of
        Raises \<Rightarrow> None
      | Returns slots \<Rightarrow>
          (let mapped = map_backend_slots duration_minutes slots
           in if mapped \<noteq> [] then Some (mapped, mapped) else Some (mapped, store)))"

section \<open>Timestamps\<close>

text \<open>
  A \<^verbatim>\<open>datetime\<close> value. \<open>tzinfo\<close> is the UTC offset in microseconds, \<open>None\<close> for a naive
  value. The ordinal of a date and the days of a month follow \<^verbatim>\<open>_ymd2ord\<close> and
  \<^verbatim>\<open>_days_in_month\<close> of the standard library.
\<close>

record datetime =
  year :: int
  month :: int
  day :: int
  hour :: int
  minute :: int
  second :: int
  microsecond :: int
  tzinfo :: "int option"

definition is_leap :: "int \<Rightarrow> bool" where
  "is_leap y = (y mod 4 = 0 \<and> (y mod 100 \<noteq> 0 \<or> y mod 400 = 0))"

definition days_in_month :: "int \<Rightarrow> int \<Rightarrow> int" where
  "days_in_month y m =
     (if m = 2 then (if is_leap y then 29 else 28)
      else if m = 4 \<or> m = 6 \<or> m = 9 \<or> m = 11 then 30 else 31)"

definition days_before_year :: "int \<Rightarrow> int" where
  "days_before_year y = (y - 1) * 365 + (y - 1) div 4 - (y - 1) div 100 + (y - 1) div 400"

definition days_before_month :: "int \<Rightarrow> int \<Rightarrow> int" where
  "days_before_month y m =
     [0, 31, 59, 90, 120, 151, 181, 212, 243, 273, 304, 334] ! nat (m - 1)
       + (if 2 < m \<and> is_leap y then 1 else 0)"

definition ymd2ord :: "int \<Rightarrow> int \<Rightarrow> int \<Rightarrow> int" where
  "ymd2ord y m d = days_before_year y + days_before_month y m + d"

text \<open>The range checks of the \<^verbatim>\<open>datetime\<close> constructor; a failed check is a ValueError.\<close>

definition valid_datetime :: "datetime \<Rightarrow> bool" where
  "valid_datetime d =
     (1 \<le> year d \<and> year d \<le> 9999 \<and> 1 \<le> month d \<and> month d \<le> 12 \<and>
      1 \<le> day d \<and> day d \<le> days_in_month (year d) (month d) \<and>
      0 \<le> hour d \<and> hour d \<le> 23 \<and> 0 \<le> minute d \<and> minute d \<le> 59 \<and>
      0 \<le> second d \<and> second d \<le> 59 \<and> 0 \<le> microsecond d \<and> microsecond d \<le> 999999)"

definition mk_datetime ::
    "int \<Rightarrow> int \<Rightarrow> int \<Rightarrow> int \<Rightarrow> int \<Rightarrow> int \<Rightarrow> int \<Rightarrow> int option \<Rightarrow> datetime option" where
  "mk_datetime y mo d h mi s us tz =
     (let dt = \<lparr>year = y, month = mo, day = d, hour = h, minute = mi, second = s,
                 microsecond = us, tzinfo = tz\<rparr>
      in if valid_datetime dt then Some dt else None)"

text \<open>
  Comparison of aware values goes through the instant: microseconds since the start of
  year 1 on the wall clock, minus the offset. \<^verbatim>\<open>find_intersection\<close> makes every value aware
  before it compares, so the naive case (read as offset 0 here) is never compared.
\<close>

definition wall_micros :: "datetime \<Rightarrow> int" where
  "wall_micros d =
     (((ymd2ord (year d) (month d) (day d) * 24 + hour d) * 60 + minute d) * 60 + second d)
        * 1000000 + microsecond d"

definition utc_micros :: "datetime \<Rightarrow> int" where
  "utc_micros d = wall_micros d - (case tzinfo d of None \<Rightarrow> 0 | Some off \<Rightarrow> off)"

definition dt_le :: "datetime \<Rightarrow> datetime \<Rightarrow> bool" where
  "dt_le a b = (utc_micros a \<le> utc_micros b)"

definition dt_lt :: "datetime \<Rightarrow> datetime \<Rightarrow> bool" where
  "dt_lt a b = (utc_micros a < utc_micros b)"

definition dt_eq :: "datetime \<Rightarrow> datetime \<Rightarrow> bool" where
  "dt_eq a b = (utc_micros a = utc_micros b)"

text \<open>\<^verbatim>\<open>pytz.UTC.localize\<close> under the test \<^verbatim>\<open>tzinfo is None\<close>.\<close>

definition ensure_aware :: "datetime \<Rightarrow> datetime" where
  "ensure_aware d = (if tzinfo d = None then d\<lparr>tzinfo := Some 0\<rparr> else d)"

subsection \<open>Reading digits\<close>

definition digit_val :: "char \<Rightarrow> int option" where
  "digit_val c =
     map_of [(CHR ''0'', 0), (CHR ''1'', 1), (CHR ''2'', 2), (CHR ''3'', 3), (CHR ''4'', 4),
             (CHR ''5'', 5), (CHR ''6'', 6), (CHR ''7'', 7), (CHR ''8'', 8), (CHR ''9'', 9)] c"

fun digits_acc :: "int \<Rightarrow> string \<Rightarrow> int option" where
  "digits_acc acc [] = Some acc"
| "digits_acc acc (c # cs) =
     (case digit_val c of None \<Rightarrow> None | Some v \<Rightarrow> digits_acc (acc * 10 + v) cs)"

definition int_of_digits :: "string \<Rightarrow> int option" where
  "int_of_digits s = (if s = [] then None else digits_acc 0 s)"

subsection \<open>\<^verbatim>\<open>datetime.fromisoformat\<close>\<close>

text \<open>
  A model of the library call, which is not part of the repository, as Python 3.10 has
  it (the oldest interpreter that accepts the annotation \<^verbatim>\<open>EmailStr | None\<close> of
  \<^verbatim>\<open>server.py\<close>): the format
  \<^verbatim>\<open>YYYY-MM-DD[*HH[:MM[:SS[.fff[fff]]]][+HH:MM[:SS[.ffffff]]]]\<close> documented for it, with
  decimal digits only; any other string is a ValueError (\<open>None\<close>). The order of the steps
  is that of \<^verbatim>\<open>_parse_isoformat_date\<close>, \<^verbatim>\<open>_parse_hh_mm_ss_ff\<close> and \<^verbatim>\<open>_parse_isoformat_time\<close>
  in \<^verbatim>\<open>Lib/datetime.py\<close>. From Python 3.11 on the call accepts further ISO 8601
  spellings (the basic format, fractions of other lengths, offsets without a colon, a
  final \<^verbatim>\<open>Z\<close>), which this model refuses; every string of the format above is read by
  those interpreters as it is read here.
\<close>

definition parse_isoformat_date :: "string \<Rightarrow> (int \<times> int \<times> int) option" where
  "parse_isoformat_date dstr =
     (if length dstr = 10 \<and> dstr ! 4 = CHR ''-'' \<and> dstr ! 7 = CHR ''-''
      then (case (int_of_digits (take 4 dstr), int_of_digits (take 2 (drop 5 dstr)),
                  int_of_digits (drop 8 dstr)) of
              (Some y, Some m, Some d) \<Rightarrow> Some (y, m, d)
            | _ \<Rightarrow> None)
      else None)"

text \<open>
  The component loop of \<^verbatim>\<open>_parse_hh_mm_ss_ff\<close>: two digits, then the end of the string or,
  while fewer than three components are read, a colon and the next component. The first
  argument counts the components that may still follow.
\<close>

fun parse_comps :: "nat \<Rightarrow> string \<Rightarrow> (int list \<times> string) option" where
  "parse_comps 0 t =
     (if length t < 2 then None
      else case int_of_digits (take 2 t) of
             None \<Rightarrow> None
           | Some v \<Rightarrow> Some ([v], drop 2 t))"
| "parse_comps (Suc n) t =
     (if length t < 2 then None
      else (case int_of_digits (take 2 t) of
              None \<Rightarrow> None
            | Some v \<Rightarrow>
                (case drop 2 t of
                   [] \<Rightarrow> Some ([v], [])
                 | c # r \<Rightarrow>
                     (if c \<noteq> CHR '':'' then None
                      else (case parse_comps n r of
                              None \<Rightarrow> None
                            | Some (vs, r') \<Rightarrow> Some (v # vs, r'))))))"

definition parse_hh_mm_ss_ff :: "string \<Rightarrow> (int \<times> int \<times> int \<times> int) option" where
  "parse_hh_mm_ss_ff t =
     (case parse_comps 2 t of
        None \<Rightarrow> None
      | Some (vs, r) \<Rightarrow>
          (let comps = vs @ replicate (3 - length vs) 0;
               h = comps ! 0; m = comps ! 1; s = comps ! 2
           in (case r of
                 [] \<Rightarrow> Some (h, m, s, 0)
               | c # f \<Rightarrow>
                   (if c \<noteq> CHR ''.'' then None
                    else if length f \<noteq> 3 \<and> length f \<noteq> 6 then None
                    else (case int_of_digits f of
                            None \<Rightarrow> None
                          | Some us \<Rightarrow>
                              Some (h, m, s, if length f = 3 then us * 1000 else us))))))"

text \<open>\<^verbatim>\<open>tstr.find(c)\<close>: the index of the first occurrence.\<close>

definition find_char :: "char \<Rightarrow> string \<Rightarrow> nat option" where
  "find_char c t = (if c \<in> set t then Some (length (takeWhile (\<lambda>x. x \<noteq> c) t)) else None)"

definition tz_pos :: "string \<Rightarrow> nat option" where
  "tz_pos tstr =
     (case find_char (CHR ''-'') tstr of Some i \<Rightarrow> Some i | None \<Rightarrow> find_char (CHR ''+'') tstr)"

text \<open>
  The time part: the zone starts at the first \<^verbatim>\<open>-\<close>, or without one at the first \<^verbatim>\<open>+\<close>.
  The zone string has length 5, 8 or 15; an offset that is not strictly inside one day
  is refused by \<^verbatim>\<open>timezone\<close>. The result carries the offset in microseconds.
\<close>

definition parse_isoformat_time :: "string \<Rightarrow> (int \<times> int \<times> int \<times> int \<times> int option) option" where
  "parse_isoformat_time tstr =
     (if length tstr < 2 then None
      else case tz_pos tstr of
             None \<Rightarrow>
               (case parse_hh_mm_ss_ff tstr of
                  None \<Rightarrow> None
                | Some (h, m, s, us) \<Rightarrow> Some (h, m, s, us, None))
           | Some i \<Rightarrow>
               (case parse_hh_mm_ss_ff (take i tstr) of
                  None \<Rightarrow> None
                | Some (h, m, s, us) \<Rightarrow>
                    (let tzstr = drop (Suc i) tstr
                     in if length tzstr \<noteq> 5 \<and> length tzstr \<noteq> 8 \<and> length tzstr \<noteq> 15 then None
                        else (case parse_hh_mm_ss_ff tzstr of
                                None \<Rightarrow> None
                              | Some (zh, zm, zs, zus) \<Rightarrow>
                                  (let tzsign = (if tstr ! i = CHR ''-'' then - 1 else 1);
                                       off = tzsign * (((zh * 60 + zm) * 60 + zs) * 1000000 + zus)
                                   in if - 86400000000 < off \<and> off < 86400000000
                                      then Some (h, m, s, us, Some off) else None)))))"

definition fromisoformat :: "string \<Rightarrow> datetime option" where
  "fromisoformat date_string =
     (case parse_isoformat_date (take 10 date_string) of
        None \<Rightarrow> None
      | Some (y, mo, d) \<Rightarrow>
          (if length date_string = 10 then mk_datetime y mo d 0 0 0 0 None
           else (case parse_isoformat_time (drop 11 date_string) of
                   None \<Rightarrow> None
                 | Some (h, mi, s, us, tz) \<Rightarrow> mk_datetime y mo d h mi s us tz)))"

subsection \<open>\<^verbatim>\<open>datetime.strptime\<close>\<close>

text \<open>
  A model of the library call for the directives the source uses. The library turns the
  format into a regular expression, matched case-insensitively at the start of the
  string, and then refuses a string with unconverted data left. A literal stands for
  itself, white space in the format for \<^verbatim>\<open>\s+\<close>, and
  \<^verbatim>\<open>%Y\<close> for \<^verbatim>\<open>\d\d\d\d\<close>,
  \<^verbatim>\<open>%m\<close> for \<^verbatim>\<open>1[0-2]|0[1-9]|[1-9]\<close>,
  \<^verbatim>\<open>%d\<close> for \<^verbatim>\<open>3[0-1]|[1-2]\d|0[1-9]|[1-9]| [1-9]\<close>,
  \<^verbatim>\<open>%H\<close> for \<^verbatim>\<open>2[0-3]|[0-1]\d|\d\<close>,
  \<^verbatim>\<open>%M\<close> for \<^verbatim>\<open>[0-5]\d|\d\<close>,
  \<^verbatim>\<open>%S\<close> for \<^verbatim>\<open>6[0-1]|[0-5]\d|\d\<close> and
  \<^verbatim>\<open>%f\<close> for \<^verbatim>\<open>[0-9]{1,6}\<close>.
  Each piece yields its matches in the order the backtracking matcher tries them; the
  first match of the whole format is the one the library takes.
\<close>

datatype fmt = Lit char | WS | DY | Dm | Dd | DH | DM | DS | Df

definition ci_eq :: "char \<Rightarrow> char \<Rightarrow> bool" where
  "ci_eq a b =
     (let x = of_char a :: nat; y = of_char b :: nat
      in x = y \<or> (65 \<le> x \<and> x \<le> 90 \<and> y = x + 32) \<or> (65 \<le> y \<and> y \<le> 90 \<and> x = y + 32))"

text \<open>
  White space as \<^verbatim>\<open>str.isspace\<close>, \<^verbatim>\<open>str.strip\<close> and the pattern \<^verbatim>\<open>\s\<close> have it. A character
  of the model is a code point below 256, and among these the white space is the range
  from U+0009 to U+000D, the range from U+001C to U+0020, U+0085 and U+00A0.
\<close>

definition is_space :: "char \<Rightarrow> bool" where
  "is_space c = (c \<in> set [CHR 0x09, CHR 0x0A, CHR 0x0B, CHR 0x0C, CHR 0x0D,
                            CHR 0x1C, CHR 0x1D, CHR 0x1E, CHR 0x1F, CHR '' '',
                            CHR 0x85, CHR 0xA0])"

definition two_digits :: "(int \<Rightarrow> int \<Rightarrow> bool) \<Rightarrow> string \<Rightarrow> (int \<times> string) list" where
  "two_digits P t =
     (case t of
        a # b # r \<Rightarrow>
          (case (digit_val a, digit_val b) of
             (Some x, Some y) \<Rightarrow> if P x y then [(x * 10 + y, r)] else []
           | _ \<Rightarrow> [])
      | _ \<Rightarrow> [])"

definition one_digit :: "(int \<Rightarrow> bool) \<Rightarrow> string \<Rightarrow> (int \<times> string) list" where
  "one_digit P t =
     (case t of
        a # r \<Rightarrow> (case digit_val a of Some x \<Rightarrow> if P x then [(x, r)] else [] | None \<Rightarrow> [])
      | [] \<Rightarrow> [])"

text \<open>The first \<open>n\<close> characters as a number, when there are that many and all are digits.\<close>

definition n_digits :: "nat \<Rightarrow> string \<Rightarrow> (int \<times> string) list" where
  "n_digits n t =
     (if length t < n then []
      else case int_of_digits (take n t) of Some v \<Rightarrow> [(v, drop n t)] | None \<Rightarrow> [])"

text \<open>
  The matches of one piece at the start of \<open>t\<close>, each with the rest of the string. The
  fraction \<^verbatim>\<open>%f\<close> is padded with zeros on the right to six digits before it is read.
\<close>

fun piece :: "fmt \<Rightarrow> string \<Rightarrow> (int \<times> string) list" where
  "piece (Lit c) t = (case t of a # r \<Rightarrow> if ci_eq c a then [(0, r)] else [] | [] \<Rightarrow> [])"
| "piece WS t =
     map (\<lambda>k. (0, drop k t)) (rev [1 ..< Suc (length (takeWhile is_space t))])"
| "piece DY t = n_digits 4 t"
| "piece Dm t =
     two_digits (\<lambda>x y. x = 1 \<and> y \<le> 2) t @ two_digits (\<lambda>x y. x = 0 \<and> 1 \<le> y) t
       @ one_digit (\<lambda>x. 1 \<le> x) t"
| "piece Dd t =
     two_digits (\<lambda>x y. x = 3 \<and> y \<le> 1) t @ two_digits (\<lambda>x y. 1 \<le> x \<and> x \<le> 2) t
       @ two_digits (\<lambda>x y. x = 0 \<and> 1 \<le> y) t @ one_digit (\<lambda>x. 1 \<le> x) t
       @ (case t of a # r \<Rightarrow> if a = CHR '' '' then one_digit (\<lambda>x. 1 \<le> x) r else [] | [] \<Rightarrow> [])"
| "piece DH t =
     two_digits (\<lambda>x y. x = 2 \<and> y \<le> 3) t @ two_digits (\<lambda>x y. x \<le> 1) t
       @ one_digit (\<lambda>x. True) t"
| "piece DM t = two_digits (\<lambda>x y. x \<le> 5) t @ one_digit (\<lambda>x. True) t"
| "piece DS t =
     two_digits (\<lambda>x y. x = 6 \<and> y \<le> 1) t @ two_digits (\<lambda>x y. x \<le> 5) t
       @ one_digit (\<lambda>x. True) t"
| "piece Df t =
     concat (map (\<lambda>k. map (\<lambda>(v, r). (v * 10 ^ (6 - k), r)) (n_digits k t)) [6, 5, 4, 3, 2, 1])"

text \<open>All matches of a format, in the matcher's order: the values of the pieces and the rest.\<close>

fun match_fmt :: "fmt list \<Rightarrow> string \<Rightarrow> ((fmt \<times> int) list \<times> string) list" where
  "match_fmt [] t = [([], t)]"
| "match_fmt (f # fs) t =
     concat (map (\<lambda>(v, r). map (\<lambda>(vs, r'). ((f, v) # vs, r')) (match_fmt fs r)) (piece f t))"

text \<open>A field that the format does not set keeps the library's default.\<close>

definition field :: "fmt \<Rightarrow> int \<Rightarrow> (fmt \<times> int) list \<Rightarrow> int" where
  "field f dflt vs = (case map_of vs f of Some v \<Rightarrow> v | None \<Rightarrow> dflt)"

definition strptime :: "string \<Rightarrow> fmt list \<Rightarrow> datetime option" where
  "strptime data_string format =
     (case match_fmt format data_string of
        [] \<Rightarrow> None
      | (vs, r) # _ \<Rightarrow>
          if r \<noteq> [] then None
          else mk_datetime (field DY 1900 vs) (field Dm 1 vs) (field Dd 1 vs)
                 (field DH 0 vs) (field DM 0 vs) (field DS 0 vs) (field Df 0 vs) None)"

text \<open>The five formats that occur in \<^verbatim>\<open>find_intersection\<close>.\<close>

definition fmt_date :: "fmt list" where
  "fmt_date = [DY, Lit (CHR ''-''), Dm, Lit (CHR ''-''), Dd]"

definition fmt_T_HMS_Z :: "fmt list" where
  "fmt_T_HMS_Z = fmt_date @ [Lit (CHR ''T''), DH, Lit (CHR '':''), DM, Lit (CHR '':''), DS,
                             Lit (CHR ''Z'')]"

definition fmt_T_HMS_f_Z :: "fmt list" where
  "fmt_T_HMS_f_Z = fmt_date @ [Lit (CHR ''T''), DH, Lit (CHR '':''), DM, Lit (CHR '':''), DS,
                               Lit (CHR ''.''), Df, Lit (CHR ''Z'')]"

definition fmt_T_HMS :: "fmt list" where
  "fmt_T_HMS = fmt_date @ [Lit (CHR ''T''), DH, Lit (CHR '':''), DM, Lit (CHR '':''), DS]"

definition fmt_sp_HMS :: "fmt list" where
  "fmt_sp_HMS = fmt_date @ [WS, DH, Lit (CHR '':''), DM, Lit (CHR '':''), DS]"

definition fmt_T_HM :: "fmt list" where
  "fmt_T_HM = fmt_date @ [Lit (CHR ''T''), DH, Lit (CHR '':''), DM]"

subsection \<open>String helpers\<close>

definition strip :: "string \<Rightarrow> string" where
  "strip s = rev (dropWhile is_space (rev (dropWhile is_space s)))"

definition endswith_Z :: "string \<Rightarrow> bool" where
  "endswith_Z s = (s \<noteq> [] \<and> last s = CHR ''Z'')"

fun contains :: "string \<Rightarrow> string \<Rightarrow> bool" where
  "contains sub [] = (sub = [])"
| "contains sub (c # cs) = (take (length sub) (c # cs) = sub \<or> contains sub cs)"

definition replace_Z :: "string \<Rightarrow> string" where
  "replace_Z s = concat (map (\<lambda>c. if c = CHR ''Z'' then ''+00:00'' else [c]) s)"

fun first_some :: "('a \<Rightarrow> 'b option) \<Rightarrow> 'a list \<Rightarrow> 'b option" where
  "first_some f [] = None"
| "first_some f (x # xs) = (case f x of Some y \<Rightarrow> Some y | None \<Rightarrow> first_some f xs)"

section \<open>Intersection matcher (slot\_manager.py)\<close>

text \<open>
  The parsing of one candidate string in \<^verbatim>\<open>find_intersection\<close>. The string is stripped and
  a final \<^verbatim>\<open>Z\<close> becomes \<^verbatim>\<open>+00:00\<close> before \<^verbatim>\<open>fromisoformat\<close> is tried. When that raises
  ValueError the handler tries \<^verbatim>\<open>strptime\<close>, on the string as already rewritten. The
  first two branches of the handler set UTC themselves, and a ValueError raised there is
  caught only by the outer handler; the third branch tries three formats in turn. In the
  end a naive value is localized to UTC. \<open>None\<close> means that the candidate string is
  skipped, whichever \<^verbatim>\<open>continue\<close> is taken.
\<close>

definition parse_candidate :: "string \<Rightarrow> datetime option" where
  "parse_candidate candidate_slot =
     (let stripped = strip candidate_slot;
          clean = (if endswith_Z stripped then butlast stripped @ ''+00:00'' else stripped)
      in case fromisoformat clean of
           Some dt \<Rightarrow> Some (ensure_aware dt)
         | None \<Rightarrow>
             (if endswith_Z clean
              then map_option (\<lambda>d. ensure_aware (d\<lparr>tzinfo := Some 0\<rparr>))
                     (strptime clean fmt_T_HMS_Z)
              else if contains ''.000Z'' clean
              then map_option (\<lambda>d. ensure_aware (d\<lparr>tzinfo := Some 0\<rparr>))
                     (strptime clean fmt_T_HMS_f_Z)
              else map_option ensure_aware
                     (first_some (strptime clean) [fmt_T_HMS, fmt_sp_HMS, fmt_T_HM])))"

text \<open>
  The parsing of a stored start or end: every \<^verbatim>\<open>Z\<close> is replaced, the string is not
  stripped and there is no second attempt. \<open>None\<close> is the ValueError that makes the loop
  go on to the next recruiter slot.
\<close>

definition parse_recruiter :: "string \<Rightarrow> datetime option" where
  "parse_recruiter s = map_option ensure_aware (fromisoformat (replace_Z s))"

text \<open>
  The inner loop over \<^verbatim>\<open>recruiter_availability\<close> for one parsed candidate value: booked
  slots and slots that do not parse are passed over, and the loop breaks at the first
  slot with \<^verbatim>\<open>recruiter_start <= candidate_dt < recruiter_end\<close>. The result is that slot with
  its parsed end.
\<close>

fun scan_slots :: "datetime \<Rightarrow> slot list \<Rightarrow> (slot \<times> datetime) option" where
  "scan_slots candidate_dt [] = None"
| "scan_slots candidate_dt (recruiter_slot # others) =
     (if \<not> available recruiter_slot then scan_slots candidate_dt others
      else (case parse_recruiter (slot_start recruiter_slot) of
              None \<Rightarrow> scan_slots candidate_dt others
            | Some recruiter_start \<Rightarrow>
                (case parse_recruiter (slot_end recruiter_slot) of
                   None \<Rightarrow> scan_slots candidate_dt others
                 | Some recruiter_end \<Rightarrow>
                     (if dt_le recruiter_start candidate_dt \<and> dt_lt candidate_dt recruiter_end
                      then Some (recruiter_slot, recruiter_end)
                      else scan_slots candidate_dt others))))"

text \<open>
  An entry of the result list. The source stores the \<^verbatim>\<open>isoformat()\<close> text of the two
  intersection bounds; the values themselves are kept here.
\<close>

record intersection =
  candidate_slot :: string
  recruiter_slot :: slot
  intersection_start :: datetime
  intersection_end :: datetime
  isect_duration :: int

text \<open>What one candidate string adds to the result: nothing or one entry.\<close>

definition match_candidate :: "slot list \<Rightarrow> string \<Rightarrow> intersection option" where
  "match_candidate store c =
     (case parse_candidate c of
        None \<Rightarrow> None
      | Some candidate_dt \<Rightarrow>
          (case scan_slots candidate_dt store of
             None \<Rightarrow> None
           | Some (r, recruiter_end) \<Rightarrow>
               Some \<lparr>candidate_slot = c, recruiter_slot = r, intersection_start = candidate_dt,
                      intersection_end = recruiter_end, isect_duration = duration r\<rparr>))"

fun find_intersection :: "slot list \<Rightarrow> string list \<Rightarrow> intersection list" where
  "find_intersection store [] = []"
| "find_intersection store (c # cs) =
     (case match_candidate store c of
        None \<Rightarrow> find_intersection store cs
      | Some i \<Rightarrow> i # find_intersection store cs)"

definition get_best_match :: "intersection list \<Rightarrow> intersection option" where
  "get_best_match intersections =
     (if intersections = [] then None else Some (intersections ! 0))"

text \<open>
  The spec's condition \<^verbatim>\<open>I.start <= p < I.end\<close> for a stored slot and a normalized
  instant, with start and end read the way the matcher reads them; a slot whose strings
  do not parse covers nothing.
\<close>

definition spec_covers :: "slot \<Rightarrow> datetime \<Rightarrow> bool" where
  "spec_covers I p =
     (case (parse_recruiter (slot_start I), parse_recruiter (slot_end I)) of
        (Some s, Some e) \<Rightarrow> dt_le s p \<and> dt_lt p e
      | _ \<Rightarrow> False)"

section \<open>The accepted formats\<close>

text \<open>
  The formats that the spec lists for the normalizer, as functions from a value to its
  text: ISO 8601 with a final \<^verbatim>\<open>Z\<close>, with milliseconds and \<^verbatim>\<open>Z\<close>, with a numeric offset
  \<^verbatim>\<open>+HH:MM\<close> or \<^verbatim>\<open>-HH:MM\<close>, and the three bare forms \<^verbatim>\<open>YYYY-MM-DDTHH:MM:SS\<close>,
  \<^verbatim>\<open>YYYY-MM-DD HH:MM:SS\<close> and \<^verbatim>\<open>YYYY-MM-DDTHH:MM\<close>, which mean UTC. These definitions
  follow the spec, not the source; the normalizer of the source is compared with them.
\<close>

definition digit_char :: "int \<Rightarrow> char" where
  "digit_char n = ''0123456789'' ! nat (n mod 10)"

definition render_date :: "datetime \<Rightarrow> string" where
  "render_date d =
     [digit_char (year d div 1000), digit_char (year d div 100), digit_char (year d div 10),
      digit_char (year d), CHR ''-'',
      digit_char (month d div 10), digit_char (month d), CHR ''-'',
      digit_char (day d div 10), digit_char (day d)]"

definition render_hm :: "datetime \<Rightarrow> string" where
  "render_hm d =
     [digit_char (hour d div 10), digit_char (hour d), CHR '':'',
      digit_char (minute d div 10), digit_char (minute d)]"

definition render_hms :: "datetime \<Rightarrow> string" where
  "render_hms d = render_hm d @ [CHR '':'', digit_char (second d div 10), digit_char (second d)]"

text \<open>An offset in microseconds that is a whole number of minutes, as sign, hours, minutes.\<close>

definition render_offset :: "int \<Rightarrow> string" where
  "render_offset off =
     [if off < 0 then CHR ''-'' else CHR ''+'',
      digit_char (\<bar>off\<bar> div 3600000000 div 10), digit_char (\<bar>off\<bar> div 3600000000), CHR '':'',
      digit_char (\<bar>off\<bar> div 60000000 mod 60 div 10), digit_char (\<bar>off\<bar> div 60000000 mod 60)]"

datatype iso_format = Iso_Z | Iso_millis_Z | Iso_offset | Bare_T | Bare_space | Bare_T_minutes

fun spec_render :: "iso_format \<Rightarrow> datetime \<Rightarrow> string" where
  "spec_render Iso_Z d = render_date d @ ''T'' @ render_hms d @ ''Z''"
| "spec_render Iso_millis_Z d =
     render_date d @ ''T'' @ render_hms d @
       [CHR ''.'', digit_char (microsecond d div 1000 div 100),
        digit_char (microsecond d div 1000 div 10), digit_char (microsecond d div 1000),
        CHR ''Z'']"
| "spec_render Iso_offset d =
     render_date d @ ''T'' @ render_hms d @ render_offset (case tzinfo d of Some off \<Rightarrow> off | None \<Rightarrow> 0)"
| "spec_render Bare_T d = render_date d @ ''T'' @ render_hms d"
| "spec_render Bare_space d = render_date d @ '' '' @ render_hms d"
| "spec_render Bare_T_minutes d = render_date d @ ''T'' @ render_hm d"

text \<open>
  The values a format can write: an offset other than UTC needs the numeric offset, in
  whole minutes; a fraction of a second needs the millisecond form, in whole
  milliseconds; the form without seconds needs a whole minute.
\<close>

fun spec_expressible :: "iso_format \<Rightarrow> datetime \<Rightarrow> bool" where
  "spec_expressible Iso_Z d = (tzinfo d = Some 0 \<and> microsecond d = 0)"
| "spec_expressible Iso_millis_Z d = (tzinfo d = Some 0 \<and> microsecond d mod 1000 = 0)"
| "spec_expressible Iso_offset d =
     (microsecond d = 0 \<and>
      (case tzinfo d of
         Some off \<Rightarrow> off mod 60000000 = 0 \<and> - 86400000000 < off \<and> off < 86400000000
       | None \<Rightarrow> False))"
| "spec_expressible Bare_T d = (tzinfo d = Some 0 \<and> microsecond d = 0)"
| "spec_expressible Bare_space d = (tzinfo d = Some 0 \<and> microsecond d = 0)"
| "spec_expressible Bare_T_minutes d =
     (tzinfo d = Some 0 \<and> microsecond d = 0 \<and> second d = 0)"

section \<open>Session (scheduler\_agent.py, server.py)\<close>

text \<open>
  \<^verbatim>\<open>session_state\<close> with the source's keys; the stage is the string the source writes.
  Of an entry of \<^verbatim>\<open>conversation_history\<close> only its \<^verbatim>\<open>"type"\<close> is kept. The agent is the
  store of its slot manager and the session state.
\<close>

record session_state =
  recruiter_email :: "string option"
  candidate_email :: "string option"
  current_stage :: string
  conversation_history :: "string list"
  proposed_slots :: "string list"
  confirmed_slot :: "intersection option"

record agent =
  recruiter_availability :: "slot list"
  session :: session_state

text \<open>The state set up by \<^verbatim>\<open>SchedulerAgent.__init__\<close> over a given store.\<close>

definition initial_agent :: "slot list \<Rightarrow> agent" where
  "initial_agent store =
     \<lparr>recruiter_availability = store,
      session = \<lparr>recruiter_email = None, candidate_email = None,
                 current_stage = ''initialized'', conversation_history = [],
                 proposed_slots = [], confirmed_slot = None\<rparr>\<rparr>"

text \<open>What a tool hands back, in place of the message text.\<close>

datatype reply =
    Parsed string "string list"
  | ErrorParsing
  | NoCandidateSlots
  | FoundMatch intersection
  | NoMatch
  | ErrorIntersection

text \<open>
  \<^verbatim>\<open>_parse_candidate_response_tool\<close>. The two calls into the e-mail parser go to a language
  model and catch their own exceptions; their results are the parameters \<open>parsed\<close> (the
  list of proposed strings) and \<open>intent\<close> (the entry \<^verbatim>\<open>"intent"\<close> of the returned
  dictionary, \<open>None\<close> when it has none). The state is written before the message is built,
  so a failure to build the message leaves the new state in place. No stage is read.
\<close>

definition parse_candidate_response_tool ::
    "string list \<Rightarrow> string option \<Rightarrow> agent \<Rightarrow> reply \<times> agent" where
  "parse_candidate_response_tool parsed intent ag =
     (let st = (session ag)\<lparr>proposed_slots := parsed,
                  current_stage := ''candidate_response_parsed'',
                  conversation_history := conversation_history (session ag) @ [''email_received'']\<rparr>
      in (case intent of Some i \<Rightarrow> Parsed i parsed | None \<Rightarrow> ErrorParsing,
          ag\<lparr>session := st\<rparr>))"

text \<open>
  \<^verbatim>\<open>_find_slot_intersection_tool\<close>: refresh with sixty minutes, return early on an empty
  proposal list, otherwise match and take the best. A raised refresh is caught by the
  tool's own handler. The store is written by the refresh only.
\<close>

definition find_slot_intersection_tool :: "backend_reply \<Rightarrow> agent \<Rightarrow> reply \<times> agent" where
  "find_slot_intersection_tool backend ag =
     (case refresh_recruiter_slots_from_backend backend 60 (recruiter_availability ag) of
        None \<Rightarrow> (ErrorIntersection, ag)
      | Some (mapped, store) \<Rightarrow>
          (let ag1 = ag\<lparr>recruiter_availability := store\<rparr>;
               slots = proposed_slots (session ag1)
           in if slots = [] then (NoCandidateSlots, ag1)
              else (case get_best_match (find_intersection store slots) of
                      Some best_match \<Rightarrow>
                        (FoundMatch best_match,
                         ag1\<lparr>session := (session ag1)\<lparr>confirmed_slot := Some best_match,
                                           current_stage := ''slot_confirmed''\<rparr>\<rparr>)
                    | None \<Rightarrow>
                        (NoMatch,
                         ag1\<lparr>session := (session ag1)\<lparr>current_stage := ''no_intersection''\<rparr>\<rparr>))))"

section \<open>Example data\<close>

text \<open>
  One-hour slots of Monday 25 August 2025, written as \<^verbatim>\<open>_generate_default_availability\<close>
  writes them, and the entry that a proposal of 10:30 on that day produces.
\<close>

abbreviation slot_0900 :: slot where
  "slot_0900 \<equiv> \<lparr>slot_start = ''2025-08-25T09:00:00Z'', slot_end = ''2025-08-25T10:00:00Z'',
                  available = True, duration = 60\<rparr>"

abbreviation slot_1000 :: slot where
  "slot_1000 \<equiv> \<lparr>slot_start = ''2025-08-25T10:00:00Z'', slot_end = ''2025-08-25T11:00:00Z'',
                  available = True, duration = 60\<rparr>"

abbreviation slot_1000_booked :: slot where
  "slot_1000_booked \<equiv> \<lparr>slot_start = ''2025-08-25T10:00:00Z'', slot_end = ''2025-08-25T11:00:00Z'',
                  available = False, duration = 60\<rparr>"

abbreviation slot_1100 :: slot where
  "slot_1100 \<equiv> \<lparr>slot_start = ''2025-08-25T11:00:00Z'', slot_end = ''2025-08-25T12:00:00Z'',
                  available = True, duration = 60\<rparr>"

abbreviation slot_1200 :: slot where
  "slot_1200 \<equiv> \<lparr>slot_start = ''2025-08-25T12:00:00Z'', slot_end = ''2025-08-25T13:00:00Z'',
                  available = True, duration = 60\<rparr>"

abbreviation match_1030 :: intersection where
  "match_1030 \<equiv>
     \<lparr>candidate_slot = ''2025-08-25T10:30:00Z'', recruiter_slot = slot_1000,
      intersection_start = \<lparr>year = 2025, month = 8, day = 25, hour = 10, minute = 30,
                              second = 0, microsecond = 0, tzinfo = Some 0\<rparr>,
      intersection_end = \<lparr>year = 2025, month = 8, day = 25, hour = 11, minute = 0,
                            second = 0, microsecond = 0, tzinfo = Some 0\<rparr>,
      isect_duration = 60\<rparr>"

text \<open>
  The first of the two slots once booked, the entry that a proposal of 09:30 produces,
  the agent after a response with that one proposal has been parsed, the agent after a
  response without any proposal has been parsed, and the agent after the evaluation of
  the one proposal over the two free slots.
\<close>

abbreviation slot_0900_booked :: slot where
  "slot_0900_booked \<equiv> \<lparr>slot_start = ''2025-08-25T09:00:00Z'', slot_end = ''2025-08-25T10:00:00Z'',
                  available = False, duration = 60\<rparr>"

abbreviation match_0930 :: intersection where
  "match_0930 \<equiv>
     \<lparr>candidate_slot = ''2025-08-25T09:30:00Z'', recruiter_slot = slot_0900,
      intersection_start = \<lparr>year = 2025, month = 8, day = 25, hour = 9, minute = 30,
                              second = 0, microsecond = 0, tzinfo = Some 0\<rparr>,
      intersection_end = \<lparr>year = 2025, month = 8, day = 25, hour = 10, minute = 0,
                            second = 0, microsecond = 0, tzinfo = Some 0\<rparr>,
      isect_duration = 60\<rparr>"

abbreviation responded :: "slot list \<Rightarrow> agent" where
  "responded store \<equiv>
     snd (parse_candidate_response_tool [''2025-08-25T09:30:00Z''] (Some ''proposed_slots'')
            (initial_agent store))"

abbreviation no_proposals :: "slot list \<Rightarrow> agent" where
  "no_proposals store \<equiv>
     snd (parse_candidate_response_tool [] (Some ''unclear'') (initial_agent store))"

abbreviation confirmed_0930 :: agent where
  "confirmed_0930 \<equiv> snd (find_slot_intersection_tool (Returns []) (responded [slot_0900, slot_1000]))"

section \<open>Properties of booking\<close>

lemma mark_loop_index:
  "mark_loop s e store =
     (if first_key_index s e store < length store
      then store[first_key_index s e store :=
                   (store ! first_key_index s e store)\<lparr>available := False\<rparr>]
      else store)"
  by (induction store) (auto simp: first_key_index_def)

lemma first_key_index_hit:
  "first_key_index s e store < length store \<Longrightarrow>
     slot_start (store ! first_key_index s e store) = s \<and>
     slot_end (store ! first_key_index s e store) = e"
  unfolding first_key_index_def
  using nth_length_takeWhile [of "\<lambda>x. \<not> (slot_start x = s \<and> slot_end x = e)" store]
  by auto

lemma first_key_index_mark_loop:
  "first_key_index s e (mark_loop s e store) = first_key_index s e store"
  by (induction store) (auto simp: first_key_index_def)

lemma length_mark_loop: "length (mark_loop s e store) = length store"
  by (induction store) auto

lemma mark_loop_idem: "mark_loop s e (mark_loop s e store) = mark_loop s e store"
  by (induction store) auto

lemma mark_loop_other:
  "j < length store \<Longrightarrow> j \<noteq> first_key_index s e store \<Longrightarrow> mark_loop s e store ! j = store ! j"
  by (simp add: mark_loop_index)

lemma mark_loop_fields:
  "j < length store \<Longrightarrow>
     slot_start (mark_loop s e store ! j) = slot_start (store ! j) \<and>
     slot_end (mark_loop s e store ! j) = slot_end (store ! j) \<and>
     duration (mark_loop s e store ! j) = duration (store ! j)"
  by (cases "j = first_key_index s e store") (simp_all add: mark_loop_index)

lemma first_key_index_before:
  "j < first_key_index s e store \<Longrightarrow> \<not> (slot_start (store ! j) = s \<and> slot_end (store ! j) = e)"
  unfolding first_key_index_def
  by (metis (mono_tags, lifting) nth_mem set_takeWhileD takeWhile_nth)

lemma mark_loop_booked:
  "first_key_index s e store < length store \<Longrightarrow>
     \<not> available (mark_loop s e store ! first_key_index s e store)"
  by (simp add: mark_loop_index)

lemma slot_book_eq: "(x\<lparr>available := False\<rparr> = x) = (\<not> available x)"
  by (cases x) auto

lemma mark_loop_changes:
  "mark_loop s e store \<noteq> store \<longleftrightarrow>
     first_key_index s e store < length store \<and> available (store ! first_key_index s e store)"
proof (induction store)
  case Nil
  then show ?case by (simp add: first_key_index_def)
next
  case (Cons x xs)
  then show ?case by (auto simp: first_key_index_def slot_book_eq)
qed

text \<open>
  C10. One call of \<^verbatim>\<open>mark_slot_booked\<close> keeps the length of the store, leaves every slot
  other than the first one with the key \<open>(s, e)\<close> as it was, leaves start, end and
  duration of every slot as they were, and writes \<^verbatim>\<open>available = False\<close> into that first
  slot only; without such a slot the store is unchanged. This holds as well when several
  slots carry the same key.
\<close>

theorem mark_slot_booked_frame:
  "length (snd (mark_slot_booked store s e)) = length store \<and>
   (\<forall>j < length store. j \<noteq> first_key_index s e store \<longrightarrow>
        snd (mark_slot_booked store s e) ! j = store ! j) \<and>
   (\<forall>j < length store.
        slot_start (snd (mark_slot_booked store s e) ! j) = slot_start (store ! j) \<and>
        slot_end (snd (mark_slot_booked store s e) ! j) = slot_end (store ! j) \<and>
        duration (snd (mark_slot_booked store s e) ! j) = duration (store ! j)) \<and>
   (\<forall>j < first_key_index s e store. \<not> (slot_start (store ! j) = s \<and> slot_end (store ! j) = e)) \<and>
   (first_key_index s e store < length store \<longrightarrow>
        slot_start (store ! first_key_index s e store) = s \<and>
        slot_end (store ! first_key_index s e store) = e \<and>
        snd (mark_slot_booked store s e) =
          store[first_key_index s e store :=
                  (store ! first_key_index s e store)\<lparr>available := False\<rparr>]) \<and>
   (\<not> first_key_index s e store < length store \<longrightarrow> snd (mark_slot_booked store s e) = store)"
  unfolding mark_slot_booked_def snd_conv
  using length_mark_loop [of s e store] mark_loop_other [of _ store s e]
    mark_loop_fields [of _ store s e] first_key_index_before [of _ s e store]
    first_key_index_hit [of s e store] mark_loop_index [of s e store]
  by (intro conjI allI impI) simp_all

text \<open>
  The frame property at a store of three slots, the last two with the same key: the call
  books the second slot and leaves its twin free.
\<close>

theorem mark_slot_booked_frame_witness:
  "first_key_index ''2025-08-25T10:00:00Z'' ''2025-08-25T11:00:00Z''
     [slot_0900, slot_1000, slot_1000] = 1 \<and>
   snd (mark_slot_booked [slot_0900, slot_1000, slot_1000]
     ''2025-08-25T10:00:00Z'' ''2025-08-25T11:00:00Z'') =
     [slot_0900, slot_1000_booked, slot_1000]"
proof -
  have i: "first_key_index ''2025-08-25T10:00:00Z'' ''2025-08-25T11:00:00Z''
     [slot_0900, slot_1000, slot_1000] = 1"
    by (simp add: first_key_index_def)
  show ?thesis
    using i mark_slot_booked_frame
      [of "[slot_0900, slot_1000, slot_1000]"
          "''2025-08-25T10:00:00Z''" "''2025-08-25T11:00:00Z''"]
    by simp
qed

text \<open>
  C3, as the code has it. \<^verbatim>\<open>mark_slot_booked\<close> returns \<^verbatim>\<open>None\<close> in every case. It changes
  the store exactly when the first slot with the key \<open>(s, e)\<close> exists and is free, and is
  a no-op when that slot is already booked or when no slot has the key. A second call
  with the same key changes nothing, and after the first and after the second call the
  first slot with the key, if there is one, is booked.
\<close>

theorem mark_slot_booked_idempotent:
  "fst (mark_slot_booked store s e) = PyNone \<and>
   (snd (mark_slot_booked store s e) \<noteq> store \<longleftrightarrow>
      first_key_index s e store < length store \<and> available (store ! first_key_index s e store)) \<and>
   mark_slot_booked (snd (mark_slot_booked store s e)) s e
     = (PyNone, snd (mark_slot_booked store s e)) \<and>
   (first_key_index s e store < length store \<longrightarrow>
      \<not> available (snd (mark_slot_booked store s e) ! first_key_index s e store) \<and>
      \<not> available (snd (mark_slot_booked (snd (mark_slot_booked store s e)) s e)
                       ! first_key_index s e store))"
  unfolding mark_slot_booked_def fst_conv snd_conv
  using mark_loop_changes [of s e store] mark_loop_idem [of s e store]
    mark_loop_booked [of s e store]
  by simp

text \<open>Booking a free slot twice: the store changes at the first call only.\<close>

theorem mark_slot_booked_idempotent_witness:
  "first_key_index ''2025-08-25T09:00:00Z'' ''2025-08-25T10:00:00Z'' [slot_0900] < 1 \<and>
   mark_slot_booked [slot_0900] ''2025-08-25T09:00:00Z'' ''2025-08-25T10:00:00Z'' =
     (PyNone, [slot_0900_booked]) \<and>
   mark_slot_booked [slot_0900_booked] ''2025-08-25T09:00:00Z'' ''2025-08-25T10:00:00Z'' =
     (PyNone, [slot_0900_booked])"
proof -
  have i: "first_key_index ''2025-08-25T09:00:00Z'' ''2025-08-25T10:00:00Z'' [slot_0900] < 1"
    by (simp add: first_key_index_def)
  show ?thesis
    using i mark_slot_booked_idempotent
      [of "[slot_0900]" "''2025-08-25T09:00:00Z''" "''2025-08-25T10:00:00Z''"]
    by (simp add: mark_slot_booked_def)
qed

text \<open>
  C3 as stated fails: on a store whose only slot is free and has the key, the call makes
  the transition from free to booked, and what it returns is not \<^verbatim>\<open>True\<close>.
\<close>

theorem mark_slot_booked_returns_true_counterexample:
  "snd (mark_slot_booked [slot_0900]
     ''2025-08-25T09:00:00Z'' ''2025-08-25T10:00:00Z'') =
     [slot_0900_booked] \<and>
   fst (mark_slot_booked [slot_0900]
     ''2025-08-25T09:00:00Z'' ''2025-08-25T10:00:00Z'') \<noteq> PyBool True"
  by (simp add: mark_slot_booked_def)

section \<open>Properties of the range query and of the refresh\<close>

lemma str_le_refl: "str_le a a"
  by (induction a) auto

lemma range_loop_filter:
  "range_loop sd ed store =
     filter (\<lambda>x. available x \<and> str_le sd (slot_start x) \<and> str_le (slot_start x) ed) store"
  by (induction store) auto

text \<open>
  C9, as the code has it. For two range strings that are not empty,
  \<^verbatim>\<open>get_available_slots\<close> returns, in store order, exactly the slots that are free and
  whose start string lies between the two range strings in Python's string order, both
  ends included. The comparison is one of strings, not of instants. In general each range
  argument that is \<^verbatim>\<open>None\<close> or empty is replaced, independently of the other, by the
  string that the code takes from the clock for that end (here the parameters \<open>now_iso\<close>
  and \<open>later_iso\<close>).
\<close>

theorem get_available_slots_string_range:
  "(a \<noteq> [] \<and> b \<noteq> [] \<longrightarrow>
      get_available_slots now_iso later_iso store (Some a) (Some b) =
        filter (\<lambda>x. available x \<and> str_le a (slot_start x) \<and> str_le (slot_start x) b) store) \<and>
   get_available_slots now_iso later_iso store None None =
        filter (\<lambda>x. available x \<and> str_le now_iso (slot_start x) \<and> str_le (slot_start x) later_iso)
          store \<and>
   (\<forall>x \<in> set store. available x \<and> a \<noteq> [] \<and> b \<noteq> [] \<and> str_le a b \<and>
        (slot_start x = a \<or> slot_start x = b) \<longrightarrow>
        x \<in> set (get_available_slots now_iso later_iso store (Some a) (Some b))) \<and>
   get_available_slots now_iso later_iso store start_date end_date =
        filter (\<lambda>x. available x \<and>
                    str_le (if start_date = None \<or> start_date = Some [] then now_iso
                            else the start_date) (slot_start x) \<and>
                    str_le (slot_start x)
                           (if end_date = None \<or> end_date = Some [] then later_iso
                            else the end_date)) store"
  by (auto simp: get_available_slots_def falsy_str_def range_loop_filter str_le_refl)

text \<open>A range whose two ends are the starts of stored free slots: both are returned.\<close>

theorem get_available_slots_string_range_witness:
  "get_available_slots ''2025-08-20T12:00:00.000000Z'' ''2025-09-03T12:00:00.000000Z''
     [slot_0900, slot_1000_booked, slot_1100, slot_1200]
     (Some ''2025-08-25T09:00:00Z'') (Some ''2025-08-25T11:00:00Z'') =
     [slot_0900, slot_1100]"
  using get_available_slots_string_range
    [of "''2025-08-25T09:00:00Z''" "''2025-08-25T11:00:00Z''"
        "''2025-08-20T12:00:00.000000Z''" "''2025-09-03T12:00:00.000000Z''"
        "[slot_0900, slot_1000_booked, slot_1100, slot_1200]"]
  by simp

text \<open>
  C9 as stated fails: the free slot starts at 09:00 UTC, the range runs from 08:00 UTC to
  10:00 UTC written with the offset \<^verbatim>\<open>+02:00\<close>, so the start lies inside the range as an
  instant, and the query returns nothing.
\<close>

theorem get_available_slots_instant_counterexample:
  "parse_candidate ''2025-08-25T10:00:00+02:00'' \<noteq> None \<and>
   parse_recruiter ''2025-08-25T09:00:00Z'' \<noteq> None \<and>
   parse_candidate ''2025-08-25T12:00:00+02:00'' \<noteq> None \<and>
   dt_le (the (parse_candidate ''2025-08-25T10:00:00+02:00''))
         (the (parse_recruiter ''2025-08-25T09:00:00Z'')) \<and>
   dt_le (the (parse_recruiter ''2025-08-25T09:00:00Z''))
         (the (parse_candidate ''2025-08-25T12:00:00+02:00'')) \<and>
   get_available_slots ''2025-08-20T12:00:00.000000Z'' ''2025-09-03T12:00:00.000000Z'' [slot_0900]
     (Some ''2025-08-25T10:00:00+02:00'') (Some ''2025-08-25T12:00:00+02:00'') = []"
  by code_simp

lemma map_backend_slots_pairs:
  "\<forall>p \<in> set ps. fst p \<noteq> [] \<and> snd p \<noteq> [] \<Longrightarrow>
     map_backend_slots d (map (\<lambda>p. \<lparr>startTime = Some (fst p), endTime = Some (snd p)\<rparr>) ps) =
       map (\<lambda>p. \<lparr>slot_start = fst p, slot_end = snd p, available = True, duration = d\<rparr>) ps"
  by (induction ps) (auto simp: falsy_str_def)

text \<open>
  C4. A refresh that maps to no slot (an empty reply in particular) leaves the store as it
  is; a refresh that maps to one slot or more replaces the store by exactly the mapped
  slots; and a reply of pairs with a start and an end maps to exactly these pairs, in
  order, each free and of the given duration.
\<close>

theorem refresh_never_clears:
  "refresh_recruiter_slots_from_backend (Returns []) d store = Some ([], store) \<and>
   (map_backend_slots d slots = [] \<longrightarrow>
      refresh_recruiter_slots_from_backend (Returns slots) d store = Some ([], store)) \<and>
   (map_backend_slots d slots \<noteq> [] \<longrightarrow>
      refresh_recruiter_slots_from_backend (Returns slots) d store =
        Some (map_backend_slots d slots, map_backend_slots d slots)) \<and>
   ((\<forall>p \<in> set ps. fst p \<noteq> [] \<and> snd p \<noteq> []) \<longrightarrow>
      map_backend_slots d (map (\<lambda>p. \<lparr>startTime = Some (fst p), endTime = Some (snd p)\<rparr>) ps) =
        map (\<lambda>p. \<lparr>slot_start = fst p, slot_end = snd p, available = True, duration = d\<rparr>) ps)"
  using map_backend_slots_pairs [of ps d]
  by (simp add: refresh_recruiter_slots_from_backend_def Let_def)

text \<open>The refresh with two pairs into an empty store, and the empty refresh after it.\<close>

theorem refresh_never_clears_witness:
  "refresh_recruiter_slots_from_backend
     (Returns [\<lparr>startTime = Some ''2025-08-25T09:00:00Z'', endTime = Some ''2025-08-25T10:00:00Z''\<rparr>,
               \<lparr>startTime = Some ''2025-08-25T10:00:00Z'', endTime = Some ''2025-08-25T11:00:00Z''\<rparr>])
     60 [] =
     Some ([slot_0900, slot_1000], [slot_0900, slot_1000]) \<and>
   refresh_recruiter_slots_from_backend (Returns []) 60 [slot_0900, slot_1000] =
     Some ([], [slot_0900, slot_1000])"
  using refresh_never_clears
    [of 60 "[slot_0900, slot_1000]"
        "[\<lparr>startTime = Some ''2025-08-25T09:00:00Z'', endTime = Some ''2025-08-25T10:00:00Z''\<rparr>,
          \<lparr>startTime = Some ''2025-08-25T10:00:00Z'', endTime = Some ''2025-08-25T11:00:00Z''\<rparr>]"
        "[(''2025-08-25T09:00:00Z'', ''2025-08-25T10:00:00Z''),
          (''2025-08-25T10:00:00Z'', ''2025-08-25T11:00:00Z'')]"]
    refresh_never_clears
    [of 60 "[]"
        "[\<lparr>startTime = Some ''2025-08-25T09:00:00Z'', endTime = Some ''2025-08-25T10:00:00Z''\<rparr>,
          \<lparr>startTime = Some ''2025-08-25T10:00:00Z'', endTime = Some ''2025-08-25T11:00:00Z''\<rparr>]"
        "[(''2025-08-25T09:00:00Z'', ''2025-08-25T10:00:00Z''),
          (''2025-08-25T10:00:00Z'', ''2025-08-25T11:00:00Z'')]"]
  by (simp add: falsy_str_def)

section \<open>Properties of the matcher\<close>

lemma scan_slots_find:
  "map_option fst (scan_slots p store) = List.find (\<lambda>I. available I \<and> spec_covers I p) store"
  by (induction store) (auto simp: spec_covers_def split: option.splits)

lemma scan_slots_end:
  "scan_slots p store = Some (r, e) \<Longrightarrow> parse_recruiter (slot_end r) = Some e"
  by (induction store) (auto split: option.splits if_splits)

lemma find_intersection_concat:
  "find_intersection store cs =
     concat (map (\<lambda>c. case match_candidate store c of None \<Rightarrow> [] | Some m \<Rightarrow> [m]) cs)"
  by (induction cs) (auto split: option.splits)

lemma find_intersection_append:
  "find_intersection store (xs @ ys) = find_intersection store xs @ find_intersection store ys"
  by (simp add: find_intersection_concat)

lemma length_find_intersection: "length (find_intersection store cs) \<le> length cs"
  by (induction cs) (auto split: option.splits)

lemma match_candidate_unparsed: "parse_candidate c = None \<Longrightarrow> match_candidate store c = None"
  by (simp add: match_candidate_def)

lemma match_candidate_slot:
  "parse_candidate c = Some p \<Longrightarrow>
     map_option recruiter_slot (match_candidate store c) =
       List.find (\<lambda>I. available I \<and> spec_covers I p) store"
  using scan_slots_find [of p store]
  by (auto simp: match_candidate_def split: option.splits)

lemma match_candidate_fields:
  "match_candidate store c = Some m \<Longrightarrow>
     candidate_slot m = c \<and> parse_candidate c = Some (intersection_start m) \<and>
     parse_recruiter (slot_end (recruiter_slot m)) = Some (intersection_end m) \<and>
     isect_duration m = duration (recruiter_slot m)"
  by (auto simp: match_candidate_def split: option.splits dest: scan_slots_end)

text \<open>
  C5. \<^verbatim>\<open>find_intersection\<close> treats each proposed string on its own: the result is the
  concatenation, in input order, of at most one entry per string. A string that does not
  normalize adds nothing and the others are matched as if it were absent. A string that
  normalizes to \<open>p\<close> is matched to the first slot in store order that is free and has
  \<^verbatim>\<open>start <= p < end\<close>, and the entry records that string, that instant and that slot.
\<close>

theorem find_intersection_first_fit:
  "find_intersection store cs =
     concat (map (\<lambda>c. case match_candidate store c of None \<Rightarrow> [] | Some m \<Rightarrow> [m]) cs) \<and>
   length (find_intersection store cs) \<le> length cs \<and>
   (parse_candidate c = None \<longrightarrow>
      match_candidate store c = None \<and>
      find_intersection store (pre @ c # post) = find_intersection store (pre @ post)) \<and>
   (\<forall>p. parse_candidate c = Some p \<longrightarrow>
      map_option recruiter_slot (match_candidate store c) =
        List.find (\<lambda>I. available I \<and> spec_covers I p) store) \<and>
   (\<forall>m. match_candidate store c = Some m \<longrightarrow>
      candidate_slot m = c \<and> parse_candidate c = Some (intersection_start m) \<and>
      parse_recruiter (slot_end (recruiter_slot m)) = Some (intersection_end m) \<and>
      isect_duration m = duration (recruiter_slot m))"
  using find_intersection_concat [of store cs] length_find_intersection [of store cs]
    match_candidate_unparsed [of c store] match_candidate_slot [of c _ store]
    match_candidate_fields [of store c]
  by (simp add: find_intersection_append)

lemma get_best_match_Cons: "get_best_match (m # ms) = Some m"
  by (simp add: get_best_match_def)

lemma get_best_match_None: "get_best_match ms = None \<longleftrightarrow> ms = []"
  by (simp add: get_best_match_def)

lemma get_best_match_find_intersection:
  "get_best_match (find_intersection store cs) = first_some (match_candidate store) cs"
  by (induction cs) (auto simp: get_best_match_def split: option.splits)

lemma first_some_None: "first_some f xs = None \<longleftrightarrow> (\<forall>x \<in> set xs. f x = None)"
  by (induction xs) (auto split: option.splits)

lemma first_some_prefix:
  "\<forall>x \<in> set pre. f x = None \<Longrightarrow> f c = Some m \<Longrightarrow> first_some f (pre @ c # post) = Some m"
  by (induction pre) auto

lemma evaluate_no_match:
  assumes "refresh_recruiter_slots_from_backend backend 60 (recruiter_availability ag)
             = Some (mapped, store)"
    and "proposed_slots (session ag) \<noteq> []"
    and "get_best_match (find_intersection store (proposed_slots (session ag))) = None"
  shows "find_slot_intersection_tool backend ag =
           (NoMatch, ag\<lparr>recruiter_availability := store,
                          session := (session ag)\<lparr>current_stage := ''no_intersection''\<rparr>\<rparr>)"
  using assms by (simp add: find_slot_intersection_tool_def Let_def)

lemma evaluate_no_proposals:
  assumes "refresh_recruiter_slots_from_backend backend 60 (recruiter_availability ag)
             = Some (mapped, store)"
    and "proposed_slots (session ag) = []"
  shows "find_slot_intersection_tool backend ag = (NoCandidateSlots, ag\<lparr>recruiter_availability := store\<rparr>)"
  using assms by (simp add: find_slot_intersection_tool_def Let_def)

text \<open>
  C6, as the code has it. \<^verbatim>\<open>get_best_match\<close> returns the first entry of the list and
  \<^verbatim>\<open>None\<close> exactly for the empty list. On the matcher's result it is the match of the
  first proposed string, in input order, that has one; it is \<^verbatim>\<open>None\<close> exactly when no
  proposed string has a match, so for the empty proposal list and for a list in which
  nothing normalizes. In \<^verbatim>\<open>_find_slot_intersection_tool\<close>, when the refresh returns,
  \<^verbatim>\<open>None\<close> for a proposal list that is not empty (also one in which nothing normalizes)
  gives the reply for no match and the stage \<^verbatim>\<open>no_intersection\<close>, without an error; an
  empty proposal list makes the tool return before the matcher is called, with the reply
  for no candidate slots and the stage as it was.
\<close>

theorem get_best_match_first:
  "get_best_match [] = None \<and>
   get_best_match (m # ms) = Some m \<and>
   (get_best_match ms = None \<longleftrightarrow> ms = []) \<and>
   get_best_match (find_intersection store cs) = first_some (match_candidate store) cs \<and>
   ((\<forall>x \<in> set pre. match_candidate store x = None) \<and> match_candidate store c = Some m' \<longrightarrow>
      get_best_match (find_intersection store (pre @ c # post)) = Some m') \<and>
   (get_best_match (find_intersection store cs) = None \<longleftrightarrow>
      (\<forall>x \<in> set cs. match_candidate store x = None)) \<and>
   get_best_match (find_intersection store []) = None \<and>
   ((\<forall>x \<in> set cs. parse_candidate x = None) \<longrightarrow>
      get_best_match (find_intersection store cs) = None) \<and>
   (refresh_recruiter_slots_from_backend backend 60 (recruiter_availability ag)
        = Some (mapped, store) \<and>
    proposed_slots (session ag) \<noteq> [] \<and>
    get_best_match (find_intersection store (proposed_slots (session ag))) = None \<longrightarrow>
      find_slot_intersection_tool backend ag =
        (NoMatch, ag\<lparr>recruiter_availability := store,
                       session := (session ag)\<lparr>current_stage := ''no_intersection''\<rparr>\<rparr>)) \<and>
   (refresh_recruiter_slots_from_backend backend 60 (recruiter_availability ag)
        = Some (mapped, store) \<and>
    proposed_slots (session ag) \<noteq> [] \<and>
    (\<forall>x \<in> set (proposed_slots (session ag)). parse_candidate x = None) \<longrightarrow>
      find_slot_intersection_tool backend ag =
        (NoMatch, ag\<lparr>recruiter_availability := store,
                       session := (session ag)\<lparr>current_stage := ''no_intersection''\<rparr>\<rparr>)) \<and>
   (refresh_recruiter_slots_from_backend backend 60 (recruiter_availability ag)
        = Some (mapped, store) \<and>
    proposed_slots (session ag) = [] \<longrightarrow>
      find_slot_intersection_tool backend ag =
        (NoCandidateSlots, ag\<lparr>recruiter_availability := store\<rparr>))"
proof -
  have sel: "get_best_match [] = None \<and>
   get_best_match (m # ms) = Some m \<and>
   (get_best_match ms = None \<longleftrightarrow> ms = []) \<and>
   get_best_match (find_intersection store cs) = first_some (match_candidate store) cs \<and>
   ((\<forall>x \<in> set pre. match_candidate store x = None) \<and> match_candidate store c = Some m' \<longrightarrow>
      get_best_match (find_intersection store (pre @ c # post)) = Some m') \<and>
   (get_best_match (find_intersection store cs) = None \<longleftrightarrow>
      (\<forall>x \<in> set cs. match_candidate store x = None)) \<and>
   get_best_match (find_intersection store []) = None \<and>
   ((\<forall>x \<in> set cs. parse_candidate x = None) \<longrightarrow>
      get_best_match (find_intersection store cs) = None)"
    using first_some_prefix [of pre "match_candidate store" c m' post]
      first_some_None [of "match_candidate store" cs]
    by (auto simp: get_best_match_find_intersection get_best_match_Cons get_best_match_None
        match_candidate_unparsed)
  have none: "get_best_match (find_intersection store (proposed_slots (session ag))) = None"
    if "\<forall>x \<in> set (proposed_slots (session ag)). parse_candidate x = None"
    using that
    by (simp add: get_best_match_find_intersection first_some_None match_candidate_unparsed)
  have unmatched: "refresh_recruiter_slots_from_backend backend 60 (recruiter_availability ag)
        = Some (mapped, store) \<and>
    proposed_slots (session ag) \<noteq> [] \<and>
    get_best_match (find_intersection store (proposed_slots (session ag))) = None \<longrightarrow>
      find_slot_intersection_tool backend ag =
        (NoMatch, ag\<lparr>recruiter_availability := store,
                       session := (session ag)\<lparr>current_stage := ''no_intersection''\<rparr>\<rparr>)"
    using evaluate_no_match [of backend ag mapped store] by blast
  have unparsed: "refresh_recruiter_slots_from_backend backend 60 (recruiter_availability ag)
        = Some (mapped, store) \<and>
    proposed_slots (session ag) \<noteq> [] \<and>
    (\<forall>x \<in> set (proposed_slots (session ag)). parse_candidate x = None) \<longrightarrow>
      find_slot_intersection_tool backend ag =
        (NoMatch, ag\<lparr>recruiter_availability := store,
                       session := (session ag)\<lparr>current_stage := ''no_intersection''\<rparr>\<rparr>)"
    using none evaluate_no_match [of backend ag mapped store] by blast
  have early: "refresh_recruiter_slots_from_backend backend 60 (recruiter_availability ag)
        = Some (mapped, store) \<and>
    proposed_slots (session ag) = [] \<longrightarrow>
      find_slot_intersection_tool backend ag =
        (NoCandidateSlots, ag\<lparr>recruiter_availability := store\<rparr>)"
    using evaluate_no_proposals [of backend ag mapped store] by blast
  show ?thesis
    using sel unmatched unparsed early
    by (elim conjE) (intro conjI; assumption)
qed

text \<open>
  The spec's first-fit example with an unparseable string between the two proposals.
\<close>

theorem find_intersection_first_fit_witness:
  "parse_candidate ''Monday at ten'' = None \<and>
   find_intersection [slot_0900, slot_1000]
       [''2025-08-25T10:30:00Z'', ''Monday at ten'', ''2025-08-25 09:15:00''] =
     find_intersection [slot_0900, slot_1000] [''2025-08-25T10:30:00Z'', ''2025-08-25 09:15:00''] \<and>
   map (\<lambda>m. (candidate_slot m, recruiter_slot m))
       (find_intersection [slot_0900, slot_1000]
          [''2025-08-25T10:30:00Z'', ''Monday at ten'', ''2025-08-25 09:15:00'']) =
     [(''2025-08-25T10:30:00Z'', slot_1000), (''2025-08-25 09:15:00'', slot_0900)]"
proof -
  have unparsed: "parse_candidate ''Monday at ten'' = None"
    by code_simp
  have two: "map (\<lambda>m. (candidate_slot m, recruiter_slot m))
       (find_intersection [slot_0900, slot_1000] [''2025-08-25T10:30:00Z'', ''2025-08-25 09:15:00'']) =
     [(''2025-08-25T10:30:00Z'', slot_1000), (''2025-08-25 09:15:00'', slot_0900)]"
    by code_simp
  show ?thesis
    using unparsed two
      find_intersection_first_fit
        [where store = "[slot_0900, slot_1000]" and c = "''Monday at ten''"
           and pre = "[''2025-08-25T10:30:00Z'']" and post = "[''2025-08-25 09:15:00'']"]
    by simp
qed

text \<open>
  The first proposal does not parse and the second is the first with a match; a response
  without proposals is evaluated to the early reply, with the agent unchanged.
\<close>

theorem get_best_match_first_witness:
  "match_candidate [slot_0900, slot_1000] ''Monday at ten'' = None \<and>
   match_candidate [slot_0900, slot_1000] ''2025-08-25T10:30:00Z'' = Some match_1030 \<and>
   get_best_match (find_intersection [slot_0900, slot_1000]
        [''Monday at ten'', ''2025-08-25T10:30:00Z'', ''2025-08-25 09:15:00''])
     = Some match_1030 \<and>
   refresh_recruiter_slots_from_backend (Returns []) 60
       (recruiter_availability (no_proposals [slot_0900, slot_1000]))
     = Some ([], [slot_0900, slot_1000]) \<and>
   proposed_slots (session (no_proposals [slot_0900, slot_1000])) = [] \<and>
   find_slot_intersection_tool (Returns []) (no_proposals [slot_0900, slot_1000])
     = (NoCandidateSlots, no_proposals [slot_0900, slot_1000])"
proof -
  have unparsed: "match_candidate [slot_0900, slot_1000] ''Monday at ten'' = None"
    by code_simp
  have hit: "match_candidate [slot_0900, slot_1000] ''2025-08-25T10:30:00Z'' = Some match_1030"
    by code_simp
  have r: "refresh_recruiter_slots_from_backend (Returns []) 60
       (recruiter_availability (no_proposals [slot_0900, slot_1000]))
     = Some ([], [slot_0900, slot_1000])"
    by (simp add: refresh_recruiter_slots_from_backend_def parse_candidate_response_tool_def
        initial_agent_def)
  have ps: "proposed_slots (session (no_proposals [slot_0900, slot_1000])) = []"
    by (simp add: parse_candidate_response_tool_def initial_agent_def)
  have same: "(no_proposals [slot_0900, slot_1000])\<lparr>recruiter_availability := [slot_0900, slot_1000]\<rparr>
                = no_proposals [slot_0900, slot_1000]"
    by (simp add: parse_candidate_response_tool_def initial_agent_def)
  show ?thesis
    using unparsed hit r ps
      get_best_match_first
        [where store = "[slot_0900, slot_1000]" and pre = "[''Monday at ten'']"
           and c = "''2025-08-25T10:30:00Z''" and m' = match_1030
           and post = "[''2025-08-25 09:15:00'']" and backend = "Returns []"
           and ag = "no_proposals [slot_0900, slot_1000]" and mapped = "[]"]
    by (simp add: same)
qed

text \<open>
  C6 as stated fails for the empty proposal list: the best match over it is \<^verbatim>\<open>None\<close>, and
  the evaluation replies that there are no candidate slots and leaves the stage at
  \<^verbatim>\<open>candidate_response_parsed\<close>, which is not the unmatched stage.
\<close>

theorem empty_proposals_unmatched_counterexample:
  "proposed_slots (session (no_proposals [slot_0900, slot_1000])) = [] \<and>
   get_best_match (find_intersection [slot_0900, slot_1000]
       (proposed_slots (session (no_proposals [slot_0900, slot_1000])))) = None \<and>
   fst (find_slot_intersection_tool (Returns []) (no_proposals [slot_0900, slot_1000]))
     = NoCandidateSlots \<and>
   current_stage (session (snd (find_slot_intersection_tool (Returns [])
       (no_proposals [slot_0900, slot_1000])))) = ''candidate_response_parsed'' \<and>
   current_stage (session (snd (find_slot_intersection_tool (Returns [])
       (no_proposals [slot_0900, slot_1000])))) \<noteq> ''no_intersection''"
  by code_simp

lemma tzinfo_ensure_aware: "\<exists>off. tzinfo (ensure_aware d) = Some off"
  by (cases "tzinfo d") (simp_all add: ensure_aware_def)

lemma parse_candidate_aware: "parse_candidate s = Some d \<Longrightarrow> tzinfo d \<noteq> None"
  by (auto simp: parse_candidate_def Let_def tzinfo_ensure_aware split: option.splits if_splits)

subsection \<open>Reading back the accepted formats\<close>

lemma mod_10_cases: "(n::int) mod 10 = 0 \<or> n mod 10 = 1 \<or> n mod 10 = 2 \<or> n mod 10 = 3 \<or> n mod 10 = 4 \<or>
        n mod 10 = 5 \<or> n mod 10 = 6 \<or> n mod 10 = 7 \<or> n mod 10 = 8 \<or> n mod 10 = 9"
proof -
  have "0 \<le> n mod 10" "n mod 10 < 10" by simp_all
  then show ?thesis by arith
qed

lemma digit_val_digit_char: "digit_val (digit_char n) = Some (n mod 10)"
  using mod_10_cases [of n]
  by (elim disjE) (simp_all add: digit_char_def digit_val_def)

lemma digit_val_Some_cases:
  "digit_val c = Some v \<Longrightarrow>
     c \<noteq> CHR ''-'' \<and> c \<noteq> CHR ''+'' \<and> c \<noteq> CHR '':'' \<and> c \<noteq> CHR ''.'' \<and> c \<noteq> CHR ''Z'' \<and>
     c \<noteq> CHR ''T'' \<and> \<not> is_space c"
  by (auto simp: digit_val_def is_space_def split: if_splits)


lemma digit_char_neq:
  "digit_char n \<noteq> CHR ''-''" "digit_char n \<noteq> CHR ''+''" "digit_char n \<noteq> CHR ''Z''"
  "CHR ''-'' \<noteq> digit_char n" "CHR ''+'' \<noteq> digit_char n" "CHR ''Z'' \<noteq> digit_char n"
  "\<not> is_space (digit_char n)"
  using digit_val_Some_cases [OF digit_val_digit_char [of n]] by auto

lemma digits_acc_2:
  "digits_acc acc [digit_char a, digit_char b] = Some ((acc * 10 + a mod 10) * 10 + b mod 10)"
  by (simp only: digits_acc.simps digit_val_digit_char option.case)

lemma two_digit_value: "0 \<le> (n::int) \<Longrightarrow> n \<le> 99 \<Longrightarrow> n div 10 mod 10 * 10 + n mod 10 = n"
  by (simp add: div_mult_mod_eq)

lemma three_digit_value: "0 \<le> (n::int) \<Longrightarrow> n \<le> 999 \<Longrightarrow>
   (n div 100 mod 10 * 10 + n div 10 mod 10) * 10 + n mod 10 = n"
proof -
  assume n: "0 \<le> n" "n \<le> 999"
  have q: "n div 10 div 10 = n div 100"
    by simp
  have "0 \<le> n div 10" "n div 10 \<le> 99"
    using n by auto
  then have "n div 10 div 10 mod 10 * 10 + n div 10 mod 10 = n div 10"
    by (rule two_digit_value)
  then have e: "n div 100 mod 10 * 10 + n div 10 mod 10 = n div 10"
    unfolding q .
  show ?thesis
    unfolding e by (rule div_mult_mod_eq)
qed

lemma four_digit_value: "0 \<le> (n::int) \<Longrightarrow> n \<le> 9999 \<Longrightarrow>
   ((n div 1000 mod 10 * 10 + n div 100 mod 10) * 10 + n div 10 mod 10) * 10 + n mod 10 = n"
proof -
  assume n: "0 \<le> n" "n \<le> 9999"
  have q: "n div 10 div 100 = n div 1000" "n div 10 div 10 = n div 100"
    by simp_all
  have "0 \<le> n div 10" "n div 10 \<le> 999"
    using n by auto
  then have "(n div 10 div 100 mod 10 * 10 + n div 10 div 10 mod 10) * 10 + n div 10 mod 10
               = n div 10"
    by (rule three_digit_value)
  then have e: "(n div 1000 mod 10 * 10 + n div 100 mod 10) * 10 + n div 10 mod 10 = n div 10"
    unfolding q .
  show ?thesis
    unfolding e by (rule div_mult_mod_eq)
qed


lemma int_of_digits_2:
  assumes "0 \<le> n" "n \<le> 99"
  shows "int_of_digits [digit_char (n div 10), digit_char n] = Some n"
proof -
  have "int_of_digits [digit_char (n div 10), digit_char n]
          = Some ((0 * 10 + n div 10 mod 10) * 10 + n mod 10)"
    by (simp only: int_of_digits_def digits_acc.simps digit_val_digit_char option.case
        list.distinct if_False)
  also have "(0 * 10 + n div 10 mod 10) * 10 + n mod 10 = n"
    using two_digit_value [OF assms] by simp
  finally show ?thesis .
qed

lemma int_of_digits_3:
  assumes "0 \<le> n" "n \<le> 999"
  shows "int_of_digits [digit_char (n div 100), digit_char (n div 10), digit_char n] = Some n"
proof -
  have "int_of_digits [digit_char (n div 100), digit_char (n div 10), digit_char n]
          = Some (((0 * 10 + n div 100 mod 10) * 10 + n div 10 mod 10) * 10 + n mod 10)"
    by (simp only: int_of_digits_def digits_acc.simps digit_val_digit_char option.case
        list.distinct if_False)
  also have "((0 * 10 + n div 100 mod 10) * 10 + n div 10 mod 10) * 10 + n mod 10 = n"
    using three_digit_value [OF assms] by (simp only: mult_zero_left add_0_left)
  finally show ?thesis .
qed

lemma int_of_digits_4:
  assumes "0 \<le> n" "n \<le> 9999"
  shows "int_of_digits [digit_char (n div 1000), digit_char (n div 100), digit_char (n div 10),
                        digit_char n] = Some n"
proof -
  have "int_of_digits [digit_char (n div 1000), digit_char (n div 100), digit_char (n div 10),
                       digit_char n]
          = Some ((((0 * 10 + n div 1000 mod 10) * 10 + n div 100 mod 10) * 10 + n div 10 mod 10)
                    * 10 + n mod 10)"
    by (simp only: int_of_digits_def digits_acc.simps digit_val_digit_char option.case
        list.distinct if_False)
  also have "(((0 * 10 + n div 1000 mod 10) * 10 + n div 100 mod 10) * 10 + n div 10 mod 10)
                    * 10 + n mod 10 = n"
    using four_digit_value [OF assms] by (simp only: mult_zero_left add_0_left)
  finally show ?thesis .
qed

lemma parse_hh_mm:
  "0 \<le> h \<Longrightarrow> h \<le> 99 \<Longrightarrow> 0 \<le> m \<Longrightarrow> m \<le> 99 \<Longrightarrow>
     parse_hh_mm_ss_ff [digit_char (h div 10), digit_char h, CHR '':'',
                        digit_char (m div 10), digit_char m] = Some (h, m, 0, 0)"
  by (simp add: parse_hh_mm_ss_ff_def numeral_2_eq_2 int_of_digits_2)

lemma parse_hh_mm_ss:
  "0 \<le> h \<Longrightarrow> h \<le> 99 \<Longrightarrow> 0 \<le> m \<Longrightarrow> m \<le> 99 \<Longrightarrow> 0 \<le> s \<Longrightarrow> s \<le> 99 \<Longrightarrow>
     parse_hh_mm_ss_ff [digit_char (h div 10), digit_char h, CHR '':'',
                        digit_char (m div 10), digit_char m, CHR '':'',
                        digit_char (s div 10), digit_char s] = Some (h, m, s, 0)"
  by (simp add: parse_hh_mm_ss_ff_def numeral_2_eq_2 int_of_digits_2)

lemma parse_hh_mm_ss_fff:
  "0 \<le> h \<Longrightarrow> h \<le> 99 \<Longrightarrow> 0 \<le> m \<Longrightarrow> m \<le> 99 \<Longrightarrow> 0 \<le> s \<Longrightarrow> s \<le> 99 \<Longrightarrow>
   0 \<le> f \<Longrightarrow> f \<le> 999 \<Longrightarrow>
     parse_hh_mm_ss_ff [digit_char (h div 10), digit_char h, CHR '':'',
                        digit_char (m div 10), digit_char m, CHR '':'',
                        digit_char (s div 10), digit_char s, CHR ''.'',
                        digit_char (f div 100), digit_char (f div 10), digit_char f]
       = Some (h, m, s, f * 1000)"
  by (simp add: parse_hh_mm_ss_ff_def numeral_2_eq_2 int_of_digits_2 int_of_digits_3)

lemma parse_isoformat_date_render:
  "0 \<le> year d \<Longrightarrow> year d \<le> 9999 \<Longrightarrow> 0 \<le> month d \<Longrightarrow> month d \<le> 99 \<Longrightarrow>
   0 \<le> day d \<Longrightarrow> day d \<le> 99 \<Longrightarrow>
     parse_isoformat_date (render_date d) = Some (year d, month d, day d)"
  by (simp add: parse_isoformat_date_def render_date_def int_of_digits_2 int_of_digits_4)

lemma strip_id: "s \<noteq> [] \<Longrightarrow> \<not> is_space (hd s) \<Longrightarrow> \<not> is_space (last s) \<Longrightarrow> strip s = s"
proof -
  assume s: "s \<noteq> []" "\<not> is_space (hd s)" "\<not> is_space (last s)"
  have a: "dropWhile is_space s = s"
    using s by (cases s) auto
  have b: "dropWhile is_space (rev s) = rev s"
    using s by (cases "rev s") (auto simp: hd_rev)
  show ?thesis
    by (simp add: strip_def a b)
qed

lemma tz_pos_hms: "tz_pos (render_hms d) = None"
  by (simp add: tz_pos_def find_char_def render_hms_def render_hm_def digit_char_neq)

lemma tz_pos_hm: "tz_pos (render_hm d) = None"
  by (simp add: tz_pos_def find_char_def render_hm_def digit_char_neq)

lemma length_render: "length (render_date d) = 10" "length (render_hms d) = 8"
  "length (render_hm d) = 5" "length (render_offset off) = 6"
  by (simp_all add: render_date_def render_hms_def render_hm_def render_offset_def)

lemma tz_pos_hms_utc: "tz_pos (render_hms d @ ''+00:00'') = Some 8"
  by (simp add: tz_pos_def find_char_def render_hms_def render_hm_def digit_char_neq)

lemma tz_pos_hms_fff_utc:
  "tz_pos (render_hms d @ [CHR ''.'', digit_char a, digit_char b, digit_char c] @ ''+00:00'')
     = Some 12"
  by (simp add: tz_pos_def find_char_def render_hms_def render_hm_def digit_char_neq)

lemma tz_pos_hms_offset: "tz_pos (render_hms d @ render_offset off) = Some 8"
  by (simp add: tz_pos_def find_char_def render_hms_def render_hm_def render_offset_def
      digit_char_neq)

lemma valid_datetime_ranges:
  assumes "valid_datetime d"
  shows "0 \<le> year d" "year d \<le> 9999" "0 \<le> month d" "month d \<le> 99" "0 \<le> day d" "day d \<le> 99"
    "0 \<le> hour d" "hour d \<le> 99" "0 \<le> minute d" "minute d \<le> 99" "0 \<le> second d" "second d \<le> 99"
    "0 \<le> microsecond d" "microsecond d \<le> 999999"
proof -
  have "days_in_month (year d) (month d) \<le> 31"
    by (simp add: days_in_month_def)
  then show "0 \<le> year d" "year d \<le> 9999" "0 \<le> month d" "month d \<le> 99" "0 \<le> day d" "day d \<le> 99"
    "0 \<le> hour d" "hour d \<le> 99" "0 \<le> minute d" "minute d \<le> 99" "0 \<le> second d" "second d \<le> 99"
    "0 \<le> microsecond d" "microsecond d \<le> 999999"
    using assms by (auto simp: valid_datetime_def)
qed

lemma parse_date_valid:
  "valid_datetime d \<Longrightarrow> parse_isoformat_date (render_date d) = Some (year d, month d, day d)"
  by (intro parse_isoformat_date_render valid_datetime_ranges)

lemma parse_hms_valid:
  "valid_datetime d \<Longrightarrow>
     parse_hh_mm_ss_ff (render_hms d) = Some (hour d, minute d, second d, 0)"
  unfolding render_hms_def render_hm_def append.simps
  by (intro parse_hh_mm_ss valid_datetime_ranges)

lemma parse_hm_valid:
  "valid_datetime d \<Longrightarrow> parse_hh_mm_ss_ff (render_hm d) = Some (hour d, minute d, 0, 0)"
  unfolding render_hm_def
  by (intro parse_hh_mm valid_datetime_ranges)

lemma parse_hms_fff_valid:
  "valid_datetime d \<Longrightarrow> 0 \<le> f \<Longrightarrow> f \<le> 999 \<Longrightarrow>
     parse_hh_mm_ss_ff (render_hms d @ [CHR ''.'', digit_char (f div 100), digit_char (f div 10),
                                         digit_char f])
       = Some (hour d, minute d, second d, f * 1000)"
  unfolding render_hms_def render_hm_def append.simps
  by (intro parse_hh_mm_ss_fff valid_datetime_ranges)

lemma parse_utc_zone: "parse_hh_mm_ss_ff ''00:00'' = Some (0, 0, 0, 0)"
  by code_simp

lemma time_bare:
  "valid_datetime d \<Longrightarrow>
     parse_isoformat_time (render_hms d) = Some (hour d, minute d, second d, 0, None)"
  by (simp add: parse_isoformat_time_def tz_pos_hms parse_hms_valid length_render)

lemma time_bare_minutes:
  "valid_datetime d \<Longrightarrow>
     parse_isoformat_time (render_hm d) = Some (hour d, minute d, 0, 0, None)"
  by (simp add: parse_isoformat_time_def tz_pos_hm parse_hm_valid length_render)

lemma time_utc:
  "valid_datetime d \<Longrightarrow>
     parse_isoformat_time (render_hms d @ ''+00:00'')
       = Some (hour d, minute d, second d, 0, Some 0)"
  by (simp add: parse_isoformat_time_def tz_pos_hms_utc parse_hms_valid length_render
      parse_utc_zone)

lemma time_fff_utc:
  assumes v: "valid_datetime d" "0 \<le> f" "f \<le> 999"
  shows "parse_isoformat_time
       (render_hms d @ [CHR ''.'', digit_char (f div 100), digit_char (f div 10), digit_char f]
          @ ''+00:00'')
       = Some (hour d, minute d, second d, f * 1000, Some 0)"
proof -
  define X where "X = render_hms d @ [CHR ''.'', digit_char (f div 100), digit_char (f div 10),
                      digit_char f] @ ''+00:00''"
  have t: "take 12 X
             = render_hms d @ [CHR ''.'', digit_char (f div 100), digit_char (f div 10), digit_char f]"
    by (simp add: X_def length_render)
  have dr: "drop 13 X = ''00:00''"
    by (simp add: X_def length_render)
  have n: "X ! 12 = CHR ''+''"
    by (simp add: X_def length_render nth_append)
  have l: "\<not> length X < 2"
    by (simp add: X_def length_render)
  have tz: "tz_pos X = Some 12"
    unfolding X_def by (rule tz_pos_hms_fff_utc)
  have "parse_isoformat_time X = Some (hour d, minute d, second d, f * 1000, Some 0)"
    by (simp add: parse_isoformat_time_def t dr n l tz parse_hms_fff_valid [OF v] parse_utc_zone
        Let_def)
  then show ?thesis
    unfolding X_def .
qed

lemma offset_value:
  fixes off :: int
  assumes "off mod 60000000 = 0"
  shows "(\<bar>off\<bar> div 3600000000 * 60 + \<bar>off\<bar> div 60000000 mod 60) * 60000000 = \<bar>off\<bar>"
proof -
  define k where "k = \<bar>off\<bar> div 60000000"
  have "60000000 dvd off"
    using assms by (simp add: dvd_eq_mod_eq_0)
  then have "60000000 dvd \<bar>off\<bar>"
    by simp
  then have a: "\<bar>off\<bar> = k * 60000000"
    unfolding k_def by simp
  have "\<bar>off\<bar> div 3600000000 = \<bar>off\<bar> div 60000000 div 60"
    by simp
  then have h: "\<bar>off\<bar> div 3600000000 = k div 60"
    unfolding k_def .
  have "k div 60 * 60 + k mod 60 = k"
    by (rule div_mult_mod_eq)
  then show ?thesis
    unfolding h k_def [symmetric] using a by simp
qed

lemma offset_ranges:
  fixes off :: int
  assumes "- 86400000000 < off" "off < 86400000000"
  shows "0 \<le> \<bar>off\<bar> div 3600000000" "\<bar>off\<bar> div 3600000000 \<le> 99"
    "0 \<le> \<bar>off\<bar> div 60000000 mod 60" "\<bar>off\<bar> div 60000000 mod 60 \<le> 99"
proof -
  have "\<bar>off\<bar> < 86400000000" using assms by simp
  then have "\<bar>off\<bar> div 3600000000 < 24" by simp
  then show "\<bar>off\<bar> div 3600000000 \<le> 99" by simp
  show "0 \<le> \<bar>off\<bar> div 3600000000" by simp
  show "0 \<le> \<bar>off\<bar> div 60000000 mod 60" by simp
  have "\<bar>off\<bar> div 60000000 mod 60 < 60" by simp
  then show "\<bar>off\<bar> div 60000000 mod 60 \<le> 99" by simp
qed

lemma parse_isoformat_time_zone:
  assumes "\<not> length X < 2" "tz_pos X = Some i"
    "parse_hh_mm_ss_ff (take i X) = Some (h, m, s, us)"
    "length (drop (Suc i) X) = 5"
    "parse_hh_mm_ss_ff (drop (Suc i) X) = Some (zh, zm, zs, zus)"
    "(if X ! i = CHR ''-'' then - 1 else 1) * (((zh * 60 + zm) * 60 + zs) * 1000000 + zus) = off"
    "- 86400000000 < off" "off < 86400000000"
  shows "parse_isoformat_time X = Some (h, m, s, us, Some off)"
  using assms by (simp add: parse_isoformat_time_def Let_def)

lemma signed_offset_value:
  fixes off :: int
  assumes "off mod 60000000 = 0"
  shows "(if off < 0 then - 1 else 1) *
           (((\<bar>off\<bar> div 3600000000 * 60 + \<bar>off\<bar> div 60000000 mod 60) * 60 + 0) * 1000000 + 0)
         = off"
proof -
  have "((\<bar>off\<bar> div 3600000000 * 60 + \<bar>off\<bar> div 60000000 mod 60) * 60 + 0) * 1000000 + 0
          = (\<bar>off\<bar> div 3600000000 * 60 + \<bar>off\<bar> div 60000000 mod 60) * 60000000"
    by simp
  also have "\<dots> = \<bar>off\<bar>"
    using assms by (rule offset_value)
  finally have e: "((\<bar>off\<bar> div 3600000000 * 60 + \<bar>off\<bar> div 60000000 mod 60) * 60 + 0) * 1000000 + 0
          = \<bar>off\<bar>" .
  show ?thesis
    unfolding e by simp
qed

lemma time_offset:
  assumes v: "valid_datetime d"
    and o: "off mod 60000000 = 0" "- 86400000000 < off" "off < 86400000000"
  shows "parse_isoformat_time (render_hms d @ render_offset off)
           = Some (hour d, minute d, second d, 0, Some off)"
proof -
  define X where "X = render_hms d @ render_offset off"
  define zh where "zh = \<bar>off\<bar> div 3600000000"
  define zm where "zm = \<bar>off\<bar> div 60000000 mod 60"
  have l: "\<not> length X < 2"
    by (simp add: X_def length_render)
  have tz: "tz_pos X = Some 8"
    unfolding X_def by (rule tz_pos_hms_offset)
  have t: "parse_hh_mm_ss_ff (take 8 X) = Some (hour d, minute d, second d, 0)"
    by (simp add: X_def length_render parse_hms_valid [OF v])
  have dr: "drop (Suc 8) X = [digit_char (zh div 10), digit_char zh, CHR '':'',
                               digit_char (zm div 10), digit_char zm]"
    by (simp add: X_def length_render render_offset_def zh_def zm_def)
  have dl: "length (drop (Suc 8) X) = 5"
    unfolding dr by simp
  have z: "parse_hh_mm_ss_ff (drop (Suc 8) X) = Some (zh, zm, 0, 0)"
    unfolding dr zh_def zm_def
    by (intro parse_hh_mm offset_ranges o)
  have n: "(X ! 8 = CHR ''-'') = (off < 0)"
    by (simp add: X_def length_render nth_append render_offset_def)
  have val: "(if X ! 8 = CHR ''-'' then - 1 else 1) * (((zh * 60 + zm) * 60 + 0) * 1000000 + 0) = off"
    unfolding n zh_def zm_def using o(1) by (rule signed_offset_value)
  have "parse_isoformat_time X = Some (hour d, minute d, second d, 0, Some off)"
    using l tz t dl z val o(2) o(3) by (rule parse_isoformat_time_zone)
  then show ?thesis
    unfolding X_def .
qed

lemma fromisoformat_render:
  assumes "valid_datetime d" "parse_isoformat_time tstr = Some (h, mi, s, us, tz)"
  shows "fromisoformat (render_date d @ sep # tstr)
           = mk_datetime (year d) (month d) (day d) h mi s us tz"
proof -
  define X where "X = render_date d @ sep # tstr"
  have l: "length X \<noteq> 10"
    by (simp add: X_def length_render)
  have t: "take 10 X = render_date d"
    by (simp add: X_def length_render)
  have dr: "drop 11 X = tstr"
    by (simp add: X_def length_render)
  have "fromisoformat X = mk_datetime (year d) (month d) (day d) h mi s us tz"
    by (simp add: fromisoformat_def l t dr parse_date_valid [OF assms(1)] assms(2))
  then show ?thesis
    unfolding X_def .
qed

lemma mk_datetime_self:
  "valid_datetime d \<Longrightarrow>
     mk_datetime (year d) (month d) (day d) (hour d) (minute d) (second d) (microsecond d)
       (tzinfo d) = Some d"
  by (cases d) (simp add: mk_datetime_def)

lemma mk_datetime_naive:
  "valid_datetime d \<Longrightarrow> tzinfo d = Some 0 \<Longrightarrow>
     map_option ensure_aware
       (mk_datetime (year d) (month d) (day d) (hour d) (minute d) (second d) (microsecond d) None)
       = Some d"
  by (cases d) (simp add: mk_datetime_def valid_datetime_def ensure_aware_def)

lemma render_ends:
  "render_date d \<noteq> []" "\<not> is_space (hd (render_date d @ s))"
  "\<not> is_space (hd (render_date d))"
  "\<not> is_space (last (s @ render_hms d))" "\<not> is_space (last (s @ render_hm d))"
  "\<not> is_space (last (s @ render_offset off))"
  "\<not> endswith_Z (s @ render_hms d)" "\<not> endswith_Z (s @ render_hm d)"
  "\<not> endswith_Z (s @ render_offset off)"
  by (simp_all add: render_date_def render_hms_def render_hm_def render_offset_def digit_char_neq
      endswith_Z_def)

lemma parse_candidate_plain:
  assumes "s \<noteq> []" "\<not> is_space (hd s)" "\<not> is_space (last s)" "\<not> endswith_Z s"
    "fromisoformat s = Some r"
  shows "parse_candidate s = Some (ensure_aware r)"
  using assms by (simp add: parse_candidate_def strip_id Let_def)

lemma parse_candidate_Z:
  assumes "\<not> is_space (hd (s @ ''Z''))" "fromisoformat (s @ ''+00:00'') = Some r"
  shows "parse_candidate (s @ ''Z'') = Some (ensure_aware r)"
proof -
  have "strip (s @ ''Z'') = s @ ''Z''"
    using assms(1) by (intro strip_id) (simp_all add: is_space_def)
  then show ?thesis
    using assms(2) by (simp add: parse_candidate_def Let_def endswith_Z_def butlast_append)
qed

lemma ensure_aware_id: "tzinfo d = Some off \<Longrightarrow> ensure_aware d = d"
  by (simp add: ensure_aware_def)

lemma roundtrip_Iso_Z:
  assumes v: "valid_datetime d" and e: "spec_expressible Iso_Z d"
  shows "parse_candidate (spec_render Iso_Z d) = Some d"
proof -
  have tz: "tzinfo d = Some 0" and us: "microsecond d = 0"
    using e by simp_all
  have "fromisoformat (render_date d @ CHR ''T'' # (render_hms d @ ''+00:00''))
          = mk_datetime (year d) (month d) (day d) (hour d) (minute d) (second d) 0 (Some 0)"
    using v time_utc [OF v] by (rule fromisoformat_render)
  also have "\<dots> = Some d"
    using mk_datetime_self [OF v] by (simp add: tz us)
  finally have f: "fromisoformat ((render_date d @ ''T'' @ render_hms d) @ ''+00:00'') = Some d"
    by simp
  have "parse_candidate ((render_date d @ ''T'' @ render_hms d) @ ''Z'') = Some (ensure_aware d)"
    using _ f by (rule parse_candidate_Z) (simp add: render_ends)
  then show ?thesis
    by (simp add: ensure_aware_id [OF tz])
qed

lemma roundtrip_Iso_millis_Z:
  assumes v: "valid_datetime d" and e: "spec_expressible Iso_millis_Z d"
  shows "parse_candidate (spec_render Iso_millis_Z d) = Some d"
proof -
  define f where "f = microsecond d div 1000"
  have tz: "tzinfo d = Some 0" and us: "microsecond d mod 1000 = 0"
    using e by simp_all
  have r: "0 \<le> microsecond d" "microsecond d \<le> 999999"
    using v by (rule valid_datetime_ranges)+
  have fr: "0 \<le> f" "f \<le> 999"
    using r by (simp_all add: f_def)
  have fv: "f * 1000 = microsecond d"
    using us div_mult_mod_eq [of "microsecond d" 1000] by (simp add: f_def)
  have "fromisoformat (render_date d @ CHR ''T'' #
           (render_hms d @ [CHR ''.'', digit_char (f div 100), digit_char (f div 10), digit_char f]
              @ ''+00:00''))
          = mk_datetime (year d) (month d) (day d) (hour d) (minute d) (second d) (f * 1000) (Some 0)"
    using v time_fff_utc [OF v fr] by (rule fromisoformat_render)
  also have "\<dots> = Some d"
    using mk_datetime_self [OF v] by (simp add: tz fv)
  finally have g: "fromisoformat ((render_date d @ ''T'' @ render_hms d @
           [CHR ''.'', digit_char (f div 100), digit_char (f div 10), digit_char f]) @ ''+00:00'')
         = Some d"
    by simp
  have "parse_candidate ((render_date d @ ''T'' @ render_hms d @
           [CHR ''.'', digit_char (f div 100), digit_char (f div 10), digit_char f]) @ ''Z'')
         = Some (ensure_aware d)"
    using _ g by (rule parse_candidate_Z) (simp add: render_ends)
  then show ?thesis
    by (simp add: ensure_aware_id [OF tz] f_def)
qed

lemma roundtrip_Iso_offset:
  assumes v: "valid_datetime d" and e: "spec_expressible Iso_offset d"
  shows "parse_candidate (spec_render Iso_offset d) = Some d"
proof -
  obtain off where tz: "tzinfo d = Some off"
    using e by (cases "tzinfo d") simp_all
  have us: "microsecond d = 0"
    and o: "off mod 60000000 = 0" "- 86400000000 < off" "off < 86400000000"
    using e by (simp_all add: tz)
  have "fromisoformat (render_date d @ CHR ''T'' # (render_hms d @ render_offset off))
          = mk_datetime (year d) (month d) (day d) (hour d) (minute d) (second d) 0 (Some off)"
    using v time_offset [OF v o] by (rule fromisoformat_render)
  also have "\<dots> = Some d"
    using mk_datetime_self [OF v] by (simp add: tz us)
  finally have g: "fromisoformat (render_date d @ ''T'' @ render_hms d @ render_offset off) = Some d"
    by simp
  have "parse_candidate (render_date d @ ''T'' @ render_hms d @ render_offset off)
          = Some (ensure_aware d)"
  proof (rule parse_candidate_plain [OF _ _ _ _ g])
    show "render_date d @ ''T'' @ render_hms d @ render_offset off \<noteq> []"
      by (simp add: render_ends)
    show "\<not> is_space (hd (render_date d @ ''T'' @ render_hms d @ render_offset off))"
      by (rule render_ends)
    show "\<not> is_space (last (render_date d @ ''T'' @ render_hms d @ render_offset off))"
      using render_ends(6) [of "render_date d @ ''T'' @ render_hms d" off] by simp
    show "\<not> endswith_Z (render_date d @ ''T'' @ render_hms d @ render_offset off)"
      using render_ends(9) [of "render_date d @ ''T'' @ render_hms d" off] by simp
  qed
  then show ?thesis
    by (simp add: ensure_aware_id [OF tz] tz)
qed

lemma roundtrip_bare:
  assumes v: "valid_datetime d" and tz: "tzinfo d = Some 0" and us: "microsecond d = 0"
    and that: "\<not> is_space (last (render_date d @ sep # render_hms d))"
       "\<not> endswith_Z (render_date d @ sep # render_hms d)"
  shows "parse_candidate (render_date d @ sep # render_hms d) = Some d"
proof -
  have "fromisoformat (render_date d @ sep # render_hms d)
          = mk_datetime (year d) (month d) (day d) (hour d) (minute d) (second d) 0 None"
    using v time_bare [OF v] by (rule fromisoformat_render)
  then have "map_option ensure_aware (fromisoformat (render_date d @ sep # render_hms d)) = Some d"
    using mk_datetime_naive [OF v tz] by (simp add: us)
  then obtain r where g: "fromisoformat (render_date d @ sep # render_hms d) = Some r"
    and r: "ensure_aware r = d"
    by auto
  have "parse_candidate (render_date d @ sep # render_hms d) = Some (ensure_aware r)"
    using _ _ that g by (rule parse_candidate_plain) (simp_all add: render_ends)
  then show ?thesis
    by (simp add: r)
qed

lemma roundtrip_Bare_T:
  assumes "valid_datetime d" "spec_expressible Bare_T d"
  shows "parse_candidate (spec_render Bare_T d) = Some d"
proof -
  have "parse_candidate (render_date d @ CHR ''T'' # render_hms d) = Some d"
    using render_ends(4) [of "render_date d @ ''T''" d] render_ends(7) [of "render_date d @ ''T''" d]
      assms
    by (intro roundtrip_bare) simp_all
  then show ?thesis by simp
qed

lemma roundtrip_Bare_space:
  assumes "valid_datetime d" "spec_expressible Bare_space d"
  shows "parse_candidate (spec_render Bare_space d) = Some d"
proof -
  have "parse_candidate (render_date d @ CHR '' '' # render_hms d) = Some d"
    using render_ends(4) [of "render_date d @ '' ''" d] render_ends(7) [of "render_date d @ '' ''" d]
      assms
    by (intro roundtrip_bare) simp_all
  then show ?thesis by simp
qed

lemma roundtrip_Bare_T_minutes:
  assumes v: "valid_datetime d" and e: "spec_expressible Bare_T_minutes d"
  shows "parse_candidate (spec_render Bare_T_minutes d) = Some d"
proof -
  have tz: "tzinfo d = Some 0" and us: "microsecond d = 0" and sec: "second d = 0"
    using e by simp_all
  have "fromisoformat (render_date d @ CHR ''T'' # render_hm d)
          = mk_datetime (year d) (month d) (day d) (hour d) (minute d) 0 0 None"
    using v time_bare_minutes [OF v] by (rule fromisoformat_render)
  then have "map_option ensure_aware (fromisoformat (render_date d @ CHR ''T'' # render_hm d)) = Some d"
    using mk_datetime_naive [OF v tz] by (simp add: us sec)
  then obtain r where g: "fromisoformat (render_date d @ CHR ''T'' # render_hm d) = Some r"
    and r: "ensure_aware r = d"
    by auto
  have "parse_candidate (render_date d @ CHR ''T'' # render_hm d) = Some (ensure_aware r)"
    using render_ends(5) [of "render_date d @ ''T''" d] render_ends(8) [of "render_date d @ ''T''" d]
    by (intro parse_candidate_plain g) (simp_all add: render_ends)
  then show ?thesis
    by (simp add: r)
qed

lemma spec_render_roundtrip:
  "valid_datetime d \<Longrightarrow> spec_expressible f d \<Longrightarrow> parse_candidate (spec_render f d) = Some d"
  by (cases f)
    (simp_all only: roundtrip_Iso_Z roundtrip_Iso_millis_Z roundtrip_Iso_offset roundtrip_Bare_T
      roundtrip_Bare_space roundtrip_Bare_T_minutes)

text \<open>
  C7. The three spellings of 14:00 UTC on 25 August 2025 normalize to the same value, and
  every normalized value carries an offset. For every valid value and every accepted
  format that can write it, the normalizer reads the text of the value back as the value
  itself, offset included. Hence two texts, in whichever accepted formats, of values with
  the same wall clock time minus offset normalize to instants that compare equal.
\<close>

theorem normalization_equivalence:
  "parse_candidate ''2025-08-25T14:00:00Z'' =
     Some \<lparr>year = 2025, month = 8, day = 25, hour = 14, minute = 0, second = 0,
            microsecond = 0, tzinfo = Some 0\<rparr> \<and>
   parse_candidate ''2025-08-25T14:00:00.000Z'' = parse_candidate ''2025-08-25T14:00:00Z'' \<and>
   parse_candidate ''2025-08-25T14:00:00'' = parse_candidate ''2025-08-25T14:00:00Z'' \<and>
   (\<forall>r. parse_candidate s = Some r \<longrightarrow> tzinfo r \<noteq> None) \<and>
   (valid_datetime d \<and> spec_expressible f d \<longrightarrow> parse_candidate (spec_render f d) = Some d) \<and>
   (valid_datetime d1 \<and> spec_expressible f1 d1 \<and> valid_datetime d2 \<and> spec_expressible f2 d2 \<and>
    wall_micros d1 - the (tzinfo d1) = wall_micros d2 - the (tzinfo d2) \<longrightarrow>
      parse_candidate (spec_render f1 d1) \<noteq> None \<and>
      parse_candidate (spec_render f2 d2) \<noteq> None \<and>
      dt_eq (the (parse_candidate (spec_render f1 d1))) (the (parse_candidate (spec_render f2 d2))) \<and>
      dt_le (the (parse_candidate (spec_render f1 d1))) (the (parse_candidate (spec_render f2 d2))) \<and>
      dt_le (the (parse_candidate (spec_render f2 d2))) (the (parse_candidate (spec_render f1 d1))))"
proof -
  have z: "parse_candidate ''2025-08-25T14:00:00Z'' =
     Some \<lparr>year = 2025, month = 8, day = 25, hour = 14, minute = 0, second = 0,
            microsecond = 0, tzinfo = Some 0\<rparr>"
    by code_simp
  have ms: "parse_candidate ''2025-08-25T14:00:00.000Z'' =
     Some \<lparr>year = 2025, month = 8, day = 25, hour = 14, minute = 0, second = 0,
            microsecond = 0, tzinfo = Some 0\<rparr>"
    by code_simp
  have bare: "parse_candidate ''2025-08-25T14:00:00'' =
     Some \<lparr>year = 2025, month = 8, day = 25, hour = 14, minute = 0, second = 0,
            microsecond = 0, tzinfo = Some 0\<rparr>"
    by code_simp
  have aware: "\<forall>r. parse_candidate s = Some r \<longrightarrow> tzinfo r \<noteq> None"
    using parse_candidate_aware by blast
  have reads: "valid_datetime d \<and> spec_expressible f d \<longrightarrow> parse_candidate (spec_render f d) = Some d"
    using spec_render_roundtrip by blast
  have same: "parse_candidate (spec_render f1 d1) \<noteq> None \<and>
      parse_candidate (spec_render f2 d2) \<noteq> None \<and>
      dt_eq (the (parse_candidate (spec_render f1 d1))) (the (parse_candidate (spec_render f2 d2))) \<and>
      dt_le (the (parse_candidate (spec_render f1 d1))) (the (parse_candidate (spec_render f2 d2))) \<and>
      dt_le (the (parse_candidate (spec_render f2 d2))) (the (parse_candidate (spec_render f1 d1)))"
    if v: "valid_datetime d1" "spec_expressible f1 d1" "valid_datetime d2" "spec_expressible f2 d2"
      and w: "wall_micros d1 - the (tzinfo d1) = wall_micros d2 - the (tzinfo d2)"
  proof -
    have p1: "parse_candidate (spec_render f1 d1) = Some d1"
      using v(1) v(2) by (rule spec_render_roundtrip)
    have p2: "parse_candidate (spec_render f2 d2) = Some d2"
      using v(3) v(4) by (rule spec_render_roundtrip)
    have t1: "tzinfo d1 \<noteq> None"
      using p1 by (rule parse_candidate_aware)
    have t2: "tzinfo d2 \<noteq> None"
      using p2 by (rule parse_candidate_aware)
    have "utc_micros d1 = utc_micros d2"
      using t1 t2 w by (auto simp: utc_micros_def)
    then show ?thesis
      by (simp add: p1 p2 dt_eq_def dt_le_def)
  qed
  show ?thesis
    unfolding ms bare z using aware reads same by blast
qed

text \<open>
  The spec's three strings are the texts of one value in three formats; 16:00 at
  \<^verbatim>\<open>+02:00\<close> and 14:00 with a space separator are texts of two values with the same
  instant, and their normalizations compare equal.
\<close>

theorem normalization_equivalence_witness:
  "spec_render Iso_Z \<lparr>year = 2025, month = 8, day = 25, hour = 14, minute = 0, second = 0,
                       microsecond = 0, tzinfo = Some 0\<rparr> = ''2025-08-25T14:00:00Z'' \<and>
   spec_render Iso_millis_Z \<lparr>year = 2025, month = 8, day = 25, hour = 14, minute = 0, second = 0,
                       microsecond = 0, tzinfo = Some 0\<rparr> = ''2025-08-25T14:00:00.000Z'' \<and>
   spec_render Bare_T \<lparr>year = 2025, month = 8, day = 25, hour = 14, minute = 0, second = 0,
                       microsecond = 0, tzinfo = Some 0\<rparr> = ''2025-08-25T14:00:00'' \<and>
   spec_render Iso_offset \<lparr>year = 2025, month = 8, day = 25, hour = 16, minute = 0, second = 0,
                       microsecond = 0, tzinfo = Some 7200000000\<rparr> = ''2025-08-25T16:00:00+02:00'' \<and>
   spec_render Bare_space \<lparr>year = 2025, month = 8, day = 25, hour = 14, minute = 0, second = 0,
                       microsecond = 0, tzinfo = Some 0\<rparr> = ''2025-08-25 14:00:00'' \<and>
   parse_candidate ''2025-08-25T16:00:00+02:00'' =
     Some \<lparr>year = 2025, month = 8, day = 25, hour = 16, minute = 0, second = 0,
            microsecond = 0, tzinfo = Some 7200000000\<rparr> \<and>
   dt_eq (the (parse_candidate ''2025-08-25T16:00:00+02:00''))
         (the (parse_candidate ''2025-08-25 14:00:00''))"
proof -
  let ?a = "\<lparr>year = 2025, month = 8, day = 25, hour = 16, minute = 0, second = 0,
             microsecond = 0, tzinfo = Some 7200000000\<rparr>"
  let ?b = "\<lparr>year = 2025, month = 8, day = 25, hour = 14, minute = 0, second = 0,
             microsecond = 0, tzinfo = Some 0\<rparr>"
  have texts: "spec_render Iso_Z ?b = ''2025-08-25T14:00:00Z''"
    "spec_render Iso_millis_Z ?b = ''2025-08-25T14:00:00.000Z''"
    "spec_render Bare_T ?b = ''2025-08-25T14:00:00''"
    "spec_render Iso_offset ?a = ''2025-08-25T16:00:00+02:00''"
    "spec_render Bare_space ?b = ''2025-08-25 14:00:00''"
    by code_simp+
  have hyps: "valid_datetime ?a" "spec_expressible Iso_offset ?a"
    "valid_datetime ?b" "spec_expressible Bare_space ?b"
    "wall_micros ?a - the (tzinfo ?a) = wall_micros ?b - the (tzinfo ?b)"
    by code_simp+
  note general = normalization_equivalence
        [where d = ?a and f = Iso_offset and ?d1.0 = ?a and ?f1.0 = Iso_offset
           and ?d2.0 = ?b and ?f2.0 = Bare_space]
  have a: "parse_candidate (spec_render Iso_offset ?a) = Some ?a"
    using general hyps by blast
  have e: "dt_eq (the (parse_candidate (spec_render Iso_offset ?a)))
                 (the (parse_candidate (spec_render Bare_space ?b)))"
    using general hyps by blast
  show ?thesis
    using texts a [unfolded texts] e [unfolded texts]
    by - (intro conjI; assumption)
qed

section \<open>Properties of the session\<close>

lemma scan_slots_mem:
  "scan_slots p store = Some (r, e) \<Longrightarrow> r \<in> set store \<and> available r"
  by (induction store) (auto split: option.splits if_splits)

lemma match_candidate_mem:
  "match_candidate store c = Some m \<Longrightarrow> recruiter_slot m \<in> set store \<and> available (recruiter_slot m)"
  by (auto simp: match_candidate_def split: option.splits dest: scan_slots_mem)

lemma find_intersection_mem:
  "m \<in> set (find_intersection store cs) \<Longrightarrow>
     recruiter_slot m \<in> set store \<and> available (recruiter_slot m)"
  by (induction cs) (auto split: option.splits dest: match_candidate_mem)

lemma get_best_match_mem: "get_best_match ms = Some m \<Longrightarrow> m \<in> set ms"
  by (cases ms) (auto simp: get_best_match_def)

text \<open>
  C1, as the code has it. When the refresh returns and the proposed slots have a best
  match over the refreshed store, \<^verbatim>\<open>_find_slot_intersection_tool\<close> records that match as
  \<^verbatim>\<open>confirmed_slot\<close> and sets the stage \<^verbatim>\<open>slot_confirmed\<close>. It does not book: the store after
  the call is the refreshed store, which contains the matched slot with
  \<^verbatim>\<open>available = True\<close>.
\<close>

theorem evaluate_confirms_without_booking:
  assumes "refresh_recruiter_slots_from_backend backend 60 (recruiter_availability ag)
             = Some (mapped, store)"
    and "get_best_match (find_intersection store (proposed_slots (session ag))) = Some m"
  shows "find_slot_intersection_tool backend ag =
           (FoundMatch m,
            ag\<lparr>recruiter_availability := store,
               session := (session ag)\<lparr>confirmed_slot := Some m,
                                        current_stage := ''slot_confirmed''\<rparr>\<rparr>) \<and>
         recruiter_slot m \<in> set (recruiter_availability
                                    (snd (find_slot_intersection_tool backend ag))) \<and>
         available (recruiter_slot m)"
proof -
  have ne: "proposed_slots (session ag) \<noteq> []"
    using assms(2) by (auto simp: get_best_match_def)
  have tool: "find_slot_intersection_tool backend ag =
           (FoundMatch m,
            ag\<lparr>recruiter_availability := store,
               session := (session ag)\<lparr>confirmed_slot := Some m,
                                        current_stage := ''slot_confirmed''\<rparr>\<rparr>)"
    using assms ne by (simp add: find_slot_intersection_tool_def Let_def)
  have "m \<in> set (find_intersection store (proposed_slots (session ag)))"
    using assms(2) by (rule get_best_match_mem)
  then have mem: "recruiter_slot m \<in> set store \<and> available (recruiter_slot m)"
    by (rule find_intersection_mem)
  show ?thesis
    using mem by (simp add: tool)
qed

text \<open>
  The end-to-end run: a response with the proposal of 09:30 is parsed, the backend has
  nothing fresher, and the evaluation confirms the slot from 09:00 to 10:00.
\<close>

theorem evaluate_confirms_without_booking_witness:
  "current_stage (session (responded [slot_0900, slot_1000])) = ''candidate_response_parsed'' \<and>
   refresh_recruiter_slots_from_backend (Returns []) 60
       (recruiter_availability (responded [slot_0900, slot_1000]))
     = Some ([], [slot_0900, slot_1000]) \<and>
   get_best_match (find_intersection [slot_0900, slot_1000]
       (proposed_slots (session (responded [slot_0900, slot_1000])))) = Some match_0930 \<and>
   fst (find_slot_intersection_tool (Returns []) (responded [slot_0900, slot_1000]))
     = FoundMatch match_0930 \<and>
   confirmed_slot (session (snd (find_slot_intersection_tool (Returns [])
       (responded [slot_0900, slot_1000])))) = Some match_0930 \<and>
   current_stage (session (snd (find_slot_intersection_tool (Returns [])
       (responded [slot_0900, slot_1000])))) = ''slot_confirmed'' \<and>
   recruiter_availability (snd (find_slot_intersection_tool (Returns [])
       (responded [slot_0900, slot_1000]))) = [slot_0900, slot_1000]"
proof -
  have st: "current_stage (session (responded [slot_0900, slot_1000])) = ''candidate_response_parsed''"
    by (simp add: parse_candidate_response_tool_def initial_agent_def)
  have r: "refresh_recruiter_slots_from_backend (Returns []) 60
       (recruiter_availability (responded [slot_0900, slot_1000]))
     = Some ([], [slot_0900, slot_1000])"
    by (simp add: refresh_recruiter_slots_from_backend_def parse_candidate_response_tool_def
        initial_agent_def)
  have ps: "proposed_slots (session (responded [slot_0900, slot_1000])) = [''2025-08-25T09:30:00Z'']"
    by (simp add: parse_candidate_response_tool_def initial_agent_def)
  have fi: "get_best_match (find_intersection [slot_0900, slot_1000] [''2025-08-25T09:30:00Z''])
     = Some match_0930"
    by code_simp
  have b: "get_best_match (find_intersection [slot_0900, slot_1000]
       (proposed_slots (session (responded [slot_0900, slot_1000])))) = Some match_0930"
    unfolding ps by (rule fi)
  show ?thesis
    using st r b evaluate_confirms_without_booking [OF r b]
    by simp
qed

text \<open>
  C1 as stated fails: after that evaluation the session is confirmed on the slot from
  09:00 to 10:00, and this slot, the first of the store, is still free.
\<close>

theorem evaluate_books_counterexample:
  "current_stage (session (responded [slot_0900, slot_1000])) = ''candidate_response_parsed'' \<and>
   get_best_match (find_intersection [slot_0900, slot_1000]
       (proposed_slots (session (responded [slot_0900, slot_1000])))) = Some match_0930 \<and>
   recruiter_slot match_0930 = slot_0900 \<and>
   current_stage (session (snd (find_slot_intersection_tool (Returns [])
       (responded [slot_0900, slot_1000])))) = ''slot_confirmed'' \<and>
   recruiter_availability (snd (find_slot_intersection_tool (Returns [])
       (responded [slot_0900, slot_1000]))) = [slot_0900, slot_1000] \<and>
   available (recruiter_availability (snd (find_slot_intersection_tool (Returns [])
       (responded [slot_0900, slot_1000]))) ! 0)"
  by code_simp


text \<open>
  C8, as the code has it. \<^verbatim>\<open>_parse_candidate_response_tool\<close> reads no stage: from every
  state it stores the parsed proposals, sets the stage \<^verbatim>\<open>candidate_response_parsed\<close> and
  leaves \<^verbatim>\<open>confirmed_slot\<close> and the store as they were. Its only error reply is the failure
  to build the message, after the state has been written.
\<close>

theorem response_arrived_any_stage:
  "proposed_slots (session (snd (parse_candidate_response_tool parsed intent ag))) = parsed \<and>
   current_stage (session (snd (parse_candidate_response_tool parsed intent ag)))
     = ''candidate_response_parsed'' \<and>
   confirmed_slot (session (snd (parse_candidate_response_tool parsed intent ag)))
     = confirmed_slot (session ag) \<and>
   recruiter_availability (snd (parse_candidate_response_tool parsed intent ag))
     = recruiter_availability ag \<and>
   (fst (parse_candidate_response_tool parsed intent ag) = ErrorParsing \<longleftrightarrow> intent = None) \<and>
   (\<forall>i. intent = Some i \<longrightarrow> fst (parse_candidate_response_tool parsed intent ag) = Parsed i parsed)"
  by (cases intent) (simp_all add: parse_candidate_response_tool_def Let_def)

text \<open>A second response arriving at the confirmed session.\<close>

theorem response_arrived_any_stage_witness:
  "current_stage (session confirmed_0930) = ''slot_confirmed'' \<and>
   confirmed_slot (session confirmed_0930) = Some match_0930 \<and>
   fst (parse_candidate_response_tool [''2025-08-26T11:00:00Z''] (Some ''proposed_slots'')
          confirmed_0930) = Parsed ''proposed_slots'' [''2025-08-26T11:00:00Z''] \<and>
   confirmed_slot (session (snd (parse_candidate_response_tool [''2025-08-26T11:00:00Z'']
          (Some ''proposed_slots'') confirmed_0930))) = Some match_0930"
proof -
  have c: "current_stage (session confirmed_0930) = ''slot_confirmed'' \<and>
           confirmed_slot (session confirmed_0930) = Some match_0930"
    by code_simp
  show ?thesis
    using c response_arrived_any_stage
      [where parsed = "[''2025-08-26T11:00:00Z'']" and intent = "Some ''proposed_slots''"
         and ag = confirmed_0930]
    by simp
qed

text \<open>
  C8 as stated fails: the session is in \<^verbatim>\<open>slot_confirmed\<close>, the next response is answered
  with the parsed proposals and not with an error, and stage and proposed slots change.
\<close>

theorem response_in_confirmed_counterexample:
  "current_stage (session confirmed_0930) = ''slot_confirmed'' \<and>
   proposed_slots (session confirmed_0930) = [''2025-08-25T09:30:00Z''] \<and>
   fst (parse_candidate_response_tool [''2025-08-26T11:00:00Z''] (Some ''proposed_slots'')
          confirmed_0930) = Parsed ''proposed_slots'' [''2025-08-26T11:00:00Z''] \<and>
   current_stage (session (snd (parse_candidate_response_tool [''2025-08-26T11:00:00Z'']
          (Some ''proposed_slots'') confirmed_0930))) = ''candidate_response_parsed'' \<and>
   proposed_slots (session (snd (parse_candidate_response_tool [''2025-08-26T11:00:00Z'']
          (Some ''proposed_slots'') confirmed_0930))) = [''2025-08-26T11:00:00Z'']"
  by code_simp

end
